theory Spec2Isabelle
  imports Complex_Main "HOL-Library.AList" "HOL-Library.Sublist" "HOL-Library.Multiset"
begin

section \<open>Strings as the matcher reads them\<close>

text \<open>
  A string of the source is a sequence of UTF-16 code units. The strings of this theory
  are the ones over the code units 0 to 255 (Basic Latin and Latin-1 Supplement), a
  character standing for the code unit of its number; \<open>toLowerCase\<close> and \<open>trim\<close> map
  such strings to such strings. On them the functions below are those of ECMAScript:

  \<^item> \<open>toLowerCase\<close> maps A to Z (65 to 90) and the capital letters of Latin-1 (192 to 222
    without the multiplication sign 215) to the code unit 32 above, and nothing else;
  \<^item> white space, for \<open>trim\<close> and for the white-space class of the regular
    expressions, is tab, line feed, vertical tab, form feed, carriage return (9 to 13),
    space (32) and no-break space (160);
  \<^item> a word character of the regular expressions is an ASCII letter, a digit or the
    underscore.

  The numbers of the source are IEEE doubles. The scoring functions are modelled in exact
  rational arithmetic (type \<open>rat\<close>): the rounding of each operation is not part of their
  model, so a score of the model can differ from the computed one in the last binary
  places. The properties of the selection and of the tiers, which turn on comparisons of
  such scores, are therefore proved for every scoring function (section Best match).
\<close>

definition lowerChar :: "char \<Rightarrow> char" where
  "lowerChar c =
     (let n = (of_char c :: nat)
      in if (65 \<le> n \<and> n \<le> 90) \<or> (192 \<le> n \<and> n \<le> 222 \<and> n \<noteq> 215) then char_of (n + 32) else c)"

definition toLowerCase :: "string \<Rightarrow> string" where
  "toLowerCase s = map lowerChar s"

definition isSpace :: "char \<Rightarrow> bool" where
  "isSpace c = (let n = (of_char c :: nat) in (9 \<le> n \<and> n \<le> 13) \<or> n = 32 \<or> n = 160)"

definition isWordChar :: "char \<Rightarrow> bool" where
  "isWordChar c =
     (let n = (of_char c :: nat) in
        (48 \<le> n \<and> n \<le> 57) \<or> (65 \<le> n \<and> n \<le> 90) \<or> n = 95 \<or> (97 \<le> n \<and> n \<le> 122))"

definition trim :: "string \<Rightarrow> string" where
  "trim s = rev (dropWhile isSpace (rev (dropWhile isSpace s)))"

text \<open>\<open>text.includes(sub)\<close>: \<open>sub\<close> occurs in \<open>text\<close> as a contiguous run.\<close>

fun includesStr :: "string \<Rightarrow> string \<Rightarrow> bool" where
  "includesStr [] sub = (sub = [])"
| "includesStr (c # cs) sub = (prefix sub (c # cs) \<or> includesStr cs sub)"

text \<open>
  Splitting a text at white space (the pattern of one or more white-space characters):
  the pieces between maximal runs of white space; a run at either end leaves an empty
  piece there, and the empty string splits into one empty piece.
\<close>

function splitWs :: "string \<Rightarrow> string \<Rightarrow> string list" where
  "splitWs cur [] = [rev cur]"
| "splitWs cur (c # cs) =
     (if isSpace c then rev cur # splitWs [] (dropWhile isSpace cs)
      else splitWs (c # cur) cs)"
  by pat_completeness auto
termination
  by (relation "measure (\<lambda>(cur, s). length s)")
     (auto simp: le_imp_less_Suc length_dropWhile_le)

text \<open>A JavaScript \<open>Set\<close> built from an array keeps the first occurrence of each element.\<close>

definition uniq :: "'a list \<Rightarrow> 'a list" where
  "uniq xs = rev (remdups (rev xs))"

section \<open>Semantic keyword matching\<close>

record KeywordGroup =
  canonical :: string
  synonyms :: "string list"
  weight :: rat

definition POLITICAL_KEYWORDS :: "KeywordGroup list" where
  "POLITICAL_KEYWORDS =
    [\<lparr>canonical = ''trump'',
      synonyms = [''donald trump'', ''trump'', ''d trump'', ''president trump'',
                  ''donald j trump'', ''djt''],
      weight = 1\<rparr>,
     \<lparr>canonical = ''biden'',
      synonyms = [''joe biden'', ''biden'', ''president biden'', ''joseph biden''],
      weight = 1\<rparr>,
     \<lparr>canonical = ''republican'',
      synonyms = [''republican'', ''gop'', ''r candidate'', ''republican nominee'',
                  ''republican candidate''],
      weight = 9 / 10\<rparr>,
     \<lparr>canonical = ''democrat'',
      synonyms = [''democrat'', ''democratic'', ''d candidate'', ''democratic nominee'',
                  ''democratic candidate''],
      weight = 9 / 10\<rparr>,
     \<lparr>canonical = ''presidential_election'',
      synonyms = [''presidential election'', ''president election'', ''potus'', ''presidency'',
                  ''presidential race''],
      weight = 95 / 100\<rparr>,
     \<lparr>canonical = ''win_election'',
      synonyms = [''win'', ''wins'', ''victory'', ''elected'', ''becomes president''],
      weight = 85 / 100\<rparr>,
     \<lparr>canonical = ''2024_election'',
      synonyms = [''2024'', ''2024 election'', ''november 2024'', ''11/2024''],
      weight = 9 / 10\<rparr>]"

definition CRYPTO_KEYWORDS :: "KeywordGroup list" where
  "CRYPTO_KEYWORDS =
    [\<lparr>canonical = ''bitcoin'', synonyms = [''bitcoin'', ''btc''], weight = 1\<rparr>,
     \<lparr>canonical = ''ethereum'', synonyms = [''ethereum'', ''eth'', ''ether''], weight = 1\<rparr>,
     \<lparr>canonical = ''price_above'',
      synonyms = [''above'', ''over'', ''exceed'', ''surpass'', ''reach'', ''hit'',
                  ''trade above'', ''close above''],
      weight = 9 / 10\<rparr>,
     \<lparr>canonical = ''price_below'',
      synonyms = [''below'', ''under'', ''fall below'', ''drop below'', ''trade below''],
      weight = 9 / 10\<rparr>,
     \<lparr>canonical = ''end_of_year'',
      synonyms = [''end of year'', ''eoy'', ''december'', ''dec'', ''year end'', ''end of 2024'',
                  ''end of 2025''],
      weight = 85 / 100\<rparr>]"

text \<open>
  A \<open>Map<string, number>\<close> is an association list in insertion order: \<open>set\<close> on a key
  already present overwrites in place, on a new key appends (\<open>AList.update\<close>).
  \<open>m.get(k) || 0\<close> reads 0 for a missing key.
\<close>

type_synonym kwmap = "(string \<times> rat) list"

definition getOr0 :: "kwmap \<Rightarrow> string \<Rightarrow> rat" where
  "getOr0 m k = (case map_of m k of None \<Rightarrow> 0 | Some v \<Rightarrow> v)"

text \<open>The inner loop of \<open>extractKeywords\<close>: the first synonym found records the group and breaks.\<close>

fun scanSynonyms :: "string \<Rightarrow> KeywordGroup \<Rightarrow> string list \<Rightarrow> kwmap \<Rightarrow> kwmap" where
  "scanSynonyms normalized g [] found = found"
| "scanSynonyms normalized g (synonym # rest) found =
     (if includesStr normalized synonym
      then (let existing = getOr0 found (canonical g)
            in AList.update (canonical g) (max existing (weight g)) found)
      else scanSynonyms normalized g rest found)"

fun extractLoop :: "string \<Rightarrow> KeywordGroup list \<Rightarrow> kwmap \<Rightarrow> kwmap" where
  "extractLoop normalized [] found = found"
| "extractLoop normalized (g # gs) found =
     extractLoop normalized gs (scanSynonyms normalized g (synonyms g) found)"

definition extractKeywords :: "string \<Rightarrow> KeywordGroup list \<Rightarrow> kwmap" where
  "extractKeywords text keywordGroups = extractLoop (toLowerCase text) keywordGroups []"

text \<open>The loop of \<open>keywordOverlapScore\<close> over all keys, carrying (intersectionWeight, unionWeight).\<close>

fun overlapLoop :: "kwmap \<Rightarrow> kwmap \<Rightarrow> string list \<Rightarrow> rat \<times> rat \<Rightarrow> rat \<times> rat" where
  "overlapLoop keywords1 keywords2 [] acc = acc"
| "overlapLoop keywords1 keywords2 (key # keys) (intersectionWeight, unionWeight) =
     (let weight1 = getOr0 keywords1 key;
          weight2 = getOr0 keywords2 key;
          intersectionWeight' =
            (if weight1 > 0 \<and> weight2 > 0 then intersectionWeight + min weight1 weight2
             else intersectionWeight)
      in overlapLoop keywords1 keywords2 keys
           (intersectionWeight', unionWeight + max weight1 weight2))"

definition keywordOverlapScore :: "string \<Rightarrow> string \<Rightarrow> KeywordGroup list \<Rightarrow> rat" where
  "keywordOverlapScore text1 text2 keywordGroups =
     (let keywords1 = extractKeywords text1 keywordGroups;
          keywords2 = extractKeywords text2 keywordGroups
      in if length keywords1 = 0 \<and> length keywords2 = 0 then 0
         else (let allKeys = uniq (map fst keywords1 @ map fst keywords2);
                   (intersectionWeight, unionWeight) =
                      overlapLoop keywords1 keywords2 allKeys (0, 0)
               in if unionWeight > 0 then intersectionWeight / unionWeight else 0))"

section \<open>Token overlap\<close>

definition STOPWORDS :: "string set" where
  "STOPWORDS = set
    [''the'', ''a'', ''an'', ''and'', ''or'', ''but'', ''in'', ''on'', ''at'', ''to'', ''for'',
     ''of'', ''with'', ''by'', ''from'', ''will'', ''be'', ''is'', ''are'', ''was'', ''were'',
     ''have'', ''has'', ''had'', ''do'', ''does'', ''did'', ''can'', ''could'', ''would'',
     ''should'', ''may'', ''might'', ''must'']"

definition tokenize :: "string \<Rightarrow> string set" where
  "tokenize text =
     set (filter (\<lambda>token. length token > 2 \<and> token \<notin> STOPWORDS)
            (splitWs [] (map (\<lambda>c. if isWordChar c \<or> isSpace c then c else CHR '' '')
                            (toLowerCase text))))"

definition tokenOverlapScore :: "string \<Rightarrow> string \<Rightarrow> rat" where
  "tokenOverlapScore text1 text2 =
     (let tokens1 = tokenize text1; tokens2 = tokenize text2
      in if card tokens1 = 0 \<and> card tokens2 = 0 then 1
         else if card tokens1 = 0 \<or> card tokens2 = 0 then 0
         else (let intersection = {t \<in> tokens1. t \<in> tokens2};
                   union = tokens1 \<union> tokens2
               in of_nat (card intersection) / of_nat (card union)))"

section \<open>Edit distance\<close>

text \<open>
  \<open>costs\<close> is a JavaScript array of numbers. A write at an index inside the array
  overwrites; the only write outside it that \<open>levenshteinDistance\<close> makes is one place
  past the end (row 0 fills the empty array from index 0 upwards), which appends.
\<close>

definition arrayPut :: "nat list \<Rightarrow> nat \<Rightarrow> nat \<Rightarrow> nat list" where
  "arrayPut xs j v = (if j < length xs then xs[j := v] else xs @ [v])"

text \<open>The inner loop \<open>for (j = 0; j <= s2.length; j++)\<close>, carrying \<open>costs\<close> and \<open>lastValue\<close>.\<close>

function innerLoop ::
  "string \<Rightarrow> string \<Rightarrow> nat \<Rightarrow> nat \<Rightarrow> nat list \<Rightarrow> nat \<Rightarrow> nat list \<times> nat" where
  "innerLoop s1 s2 i j costs lastValue =
     (if j \<le> length s2 then
        (if i = 0 then innerLoop s1 s2 i (j + 1) (arrayPut costs j j) lastValue
         else if j > 0 then
           (let newValue = costs ! (j - 1);
                newValue' =
                  (if s1 ! (i - 1) \<noteq> s2 ! (j - 1)
                   then min (min newValue lastValue) (costs ! j) + 1
                   else newValue)
            in innerLoop s1 s2 i (j + 1) (arrayPut costs (j - 1) lastValue) newValue')
         else innerLoop s1 s2 i (j + 1) costs lastValue)
      else (costs, lastValue))"
  by pat_completeness auto
termination
  by (relation "measure (\<lambda>(s1, s2, i, j, costs, lastValue). Suc (length s2) - j)") auto

declare innerLoop.simps [simp del]

text \<open>The outer loop \<open>for (i = 0; i <= s1.length; i++)\<close>.\<close>

function outerLoop :: "string \<Rightarrow> string \<Rightarrow> nat \<Rightarrow> nat list \<Rightarrow> nat list" where
  "outerLoop s1 s2 i costs =
     (if i \<le> length s1 then
        (let (costs', lastValue) = innerLoop s1 s2 i 0 costs i;
             costs'' = (if i > 0 then arrayPut costs' (length s2) lastValue else costs')
         in outerLoop s1 s2 (i + 1) costs'')
      else costs)"
  by pat_completeness auto
termination
  by (relation "measure (\<lambda>(s1, s2, i, costs). Suc (length s1) - i)") auto

declare outerLoop.simps [simp del]

definition levenshteinDistance :: "string \<Rightarrow> string \<Rightarrow> nat" where
  "levenshteinDistance s1 s2 = outerLoop s1 s2 0 [] ! length s2"

definition levenshteinSimilarity :: "string \<Rightarrow> string \<Rightarrow> rat" where
  "levenshteinSimilarity s1 s2 =
     (let longer = (if length s1 > length s2 then s1 else s2);
          shorter = (if length s1 > length s2 then s2 else s1)
      in if length longer = 0 then 1
         else (let editDistance = levenshteinDistance longer shorter
               in (of_nat (length longer) - of_nat editDistance) / of_nat (length longer)))"

section \<open>Combined score\<close>

text \<open>
  A \<open>Date\<close> holds a time in milliseconds since the epoch, or is invalid; \<open>getTime\<close> of an
  invalid date is \<open>NaN\<close>, read here as \<open>None\<close>.
\<close>

datatype JsDate = Date int | InvalidDate

fun getTime :: "JsDate \<Rightarrow> int option" where
  "getTime (Date ms) = Some ms"
| "getTime InvalidDate = None"

text \<open>
  \<open>calculateMatchScore\<close> takes any object with a title, a date and an optional category;
  the market types of the two venues extend these. Of the fields of a market only the
  ones the matcher reads are named, the others stay in the extension part of the record.
\<close>

record PolyQuestion =
  title :: string
  endDate :: JsDate
  category :: "string option"

record PolymarketMarket = PolyQuestion +
  conditionId :: string
  outcomes :: "string list"

record KalshiQuestion =
  title :: string
  expirationTime :: JsDate
  category :: "string option"

record KalshiMarket = KalshiQuestion +
  ticker :: string

datatype MatchMethod = Exact | Keyword | Token | Fuzzy | Combined | Manual

datatype Confidence = High | Medium | Low

record MatchScore =
  overall :: rat
  exact :: rat
  keyword :: rat
  token :: rat
  fuzzy :: rat
  date :: rat
  category :: rat
  "method" :: MatchMethod
  confidence :: Confidence
  breakdown :: string

text \<open>Decimal digits of a natural number.\<close>

function natStr :: "nat \<Rightarrow> string" where
  "natStr n = (if n < 10 then [char_of (48 + n)] else natStr (n div 10) @ [char_of (48 + n mod 10)])"
  by pat_completeness auto
termination
  by (relation "measure id") auto

declare natStr.simps [simp del]

text \<open>
  \<open>x.toFixed(0)\<close> for \<open>|x| < 10^21\<close>: the nearest integer, the larger one at a tie of the
  magnitude, with the sign of \<open>x\<close> in front.
\<close>

definition toFixed0 :: "rat \<Rightarrow> string" where
  "toFixed0 x =
     (if x < 0 then ''-'' @ natStr (nat \<lfloor>- x + 1 / 2\<rfloor>) else natStr (nat \<lfloor>x + 1 / 2\<rfloor>))"

text \<open>
  The date score: with either date invalid the difference is \<open>NaN\<close>, both comparisons
  are false and the score stays at its initial value 1.
\<close>

definition dateScoreOf :: "JsDate \<Rightarrow> JsDate \<Rightarrow> rat" where
  "dateScoreOf d1 d2 =
     (case (getTime d1, getTime d2) of
        (Some t1, Some t2) \<Rightarrow>
          (let dateDiffMs = \<bar>t1 - t2\<bar>;
               dateDiffDays = (of_int dateDiffMs :: rat) / (1000 * 60 * 60 * 24)
           in if dateDiffDays > 30 then 0
              else if dateDiffDays > 7 then 7 / 10 + (3 / 10 * (30 - dateDiffDays) / 23)
              else 1)
      | _ \<Rightarrow> 1)"

text \<open>
  \<open>calculateMatchScore\<close>. The normalization of the two titles,
  \<open>title.toLowerCase().trim()\<close>, decides between the exact path and the scored path. The
  function is first written with that normalization as a parameter \<open>normalizeTitle\<close>, so that
  what is proved of the two paths can be stated for every normalization, whatever the
  case mapping and the white space of the platform are; \<open>calculateMatchScore\<close> itself is
  the function with \<open>toLowerCase\<close> and \<open>trim\<close> as defined above.
\<close>

definition calculateMatchScoreWith ::
  "(string \<Rightarrow> string) \<Rightarrow> 'a PolyQuestion_scheme \<Rightarrow> 'b KalshiQuestion_scheme \<Rightarrow> MatchScore" where
  "calculateMatchScoreWith normalizeTitle polymarket kalshi =
     (let norm1 = normalizeTitle (PolyQuestion.title polymarket);
          norm2 = normalizeTitle (KalshiQuestion.title kalshi)
      in if norm1 = norm2 then
           \<lparr>overall = 1, exact = 1, keyword = 1, token = 1, fuzzy = 1, date = 1, category = 1,
            method = Exact, confidence = High, breakdown = ''Exact title match''\<rparr>
         else
          (let keywordGroups = POLITICAL_KEYWORDS @ CRYPTO_KEYWORDS;
               keywordScore = keywordOverlapScore (PolyQuestion.title polymarket)
                                (KalshiQuestion.title kalshi) keywordGroups;
               tokenScore = tokenOverlapScore (PolyQuestion.title polymarket)
                              (KalshiQuestion.title kalshi);
               fuzzyScore = levenshteinSimilarity norm1 norm2;
               dateScore = dateScoreOf (endDate polymarket) (expirationTime kalshi);
               categoryScore = 1 / 2;
               overall = 4 / 10 * keywordScore + 3 / 10 * tokenScore + 15 / 100 * fuzzyScore
                         + 1 / 10 * dateScore + 5 / 100 * categoryScore;
               (method, confidence) =
                 (if keywordScore \<ge> 8 / 10
                  then (Keyword, if overall \<ge> 8 / 10 then High else Medium)
                  else if tokenScore \<ge> 7 / 10
                  then (Token, if overall \<ge> 7 / 10 then High else Medium)
                  else if fuzzyScore \<ge> 9 / 10 then (Fuzzy, Medium)
                  else (Combined, Low));
               breakdown = ''Keyword: '' @ toFixed0 (keywordScore * 100) @ ''%, Token: ''
                           @ toFixed0 (tokenScore * 100) @ ''%, Fuzzy: ''
                           @ toFixed0 (fuzzyScore * 100) @ ''%, Date: ''
                           @ toFixed0 (dateScore * 100) @ ''%''
           in \<lparr>overall = overall, exact = 0, keyword = keywordScore, token = tokenScore,
               fuzzy = fuzzyScore, date = dateScore, category = categoryScore,
               method = method, confidence = confidence, breakdown = breakdown\<rparr>))"

definition calculateMatchScore ::
  "'a PolyQuestion_scheme \<Rightarrow> 'b KalshiQuestion_scheme \<Rightarrow> MatchScore" where
  "calculateMatchScore polymarket kalshi =
     calculateMatchScoreWith (\<lambda>title. trim (toLowerCase title)) polymarket kalshi"

section \<open>Best match\<close>

text \<open>
  Logging and console output change no result and are left out, here and in the event
  matcher.
\<close>

record MatchResult =
  matched :: bool
  kalshiTicker :: string
  kalshiTitle :: string
  score :: MatchScore
  needsReview :: bool
  shouldTrade :: bool

text \<open>
  The searches compare computed scores, which are doubles, with the literals 0.75 and
  0.60. The literal 0.75 is a double; the literal 0.60 denotes the double nearest to it,
  5404319552844595 / 2^53, a little below 6/10.
\<close>

definition double_0_60 :: rat where
  "double_0_60 = 5404319552844595 / 9007199254740992"

text \<open>
  The loop of \<open>findBestMatch\<close>, carrying \<open>bestMatch\<close> and \<open>bestOverall\<close>. The loop and the
  tiers read a score only through comparisons of its overall field. They are therefore
  written for an arbitrary scoring function \<open>scoreOf\<close> in the place of the call of
  \<open>calculateMatchScore\<close>, so that what is proved of them holds of the scores the source
  computes, whatever their rounding; \<open>findBestMatch\<close> is the search with the
  \<open>calculateMatchScore\<close> of this theory.
\<close>

fun bestLoopWith ::
  "(PolymarketMarket \<Rightarrow> KalshiMarket \<Rightarrow> MatchScore) \<Rightarrow> PolymarketMarket \<Rightarrow> KalshiMarket list
     \<Rightarrow> (KalshiMarket \<times> MatchScore) option \<times> rat
     \<Rightarrow> (KalshiMarket \<times> MatchScore) option \<times> rat" where
  "bestLoopWith scoreOf polymarket [] acc = acc"
| "bestLoopWith scoreOf polymarket (kalshi # rest) (bestMatch, bestOverall) =
     (let score = scoreOf polymarket kalshi
      in if overall score > bestOverall
         then bestLoopWith scoreOf polymarket rest (Some (kalshi, score), overall score)
         else bestLoopWith scoreOf polymarket rest (bestMatch, bestOverall))"

definition findBestMatchWith ::
  "(PolymarketMarket \<Rightarrow> KalshiMarket \<Rightarrow> MatchScore) \<Rightarrow> PolymarketMarket \<Rightarrow> KalshiMarket list
     \<Rightarrow> MatchResult option" where
  "findBestMatchWith scoreOf polymarket kalshiMarkets =
     (case fst (bestLoopWith scoreOf polymarket kalshiMarkets (None, 0)) of
        None \<Rightarrow> None
      | Some best \<Rightarrow>
          (let (kalshi, score) = best;
               shouldTrade = (overall score \<ge> 75 / 100);
               needsReview = (overall score \<ge> double_0_60 \<and> overall score < 75 / 100);
               matched = (overall score \<ge> double_0_60)
           in if \<not> matched then None
              else Some \<lparr>matched = matched, kalshiTicker = ticker kalshi,
                         kalshiTitle = KalshiQuestion.title kalshi, score = score,
                         needsReview = needsReview, shouldTrade = shouldTrade\<rparr>))"

definition findBestMatch :: "PolymarketMarket \<Rightarrow> KalshiMarket list \<Rightarrow> MatchResult option" where
  "findBestMatch polymarket kalshiMarkets =
     findBestMatchWith calculateMatchScore polymarket kalshiMarkets"

section \<open>The event matcher\<close>

record OutcomeMapping =
  polymarketOutcome :: string
  kalshiSide :: string

text \<open>
  An \<open>EventMapping\<close>; the last two fields are the properties that \<open>findKalshiEquivalent\<close>
  attaches to the object after creation (absent on mappings made any other way).
\<close>

record EventMapping =
  mappingId :: string
  polymarketConditionId :: string
  kalshiTicker :: string
  eventDescription :: string
  matchConfidence :: rat
  resolutionDate :: JsDate
  matchMethod :: MatchMethod
  outcomeMapping :: "OutcomeMapping list"
  isActive :: bool
  createdAt :: JsDate
  updatedAt :: JsDate
  scoreBreakdown :: "string option"
  needsReview :: "bool option"

text \<open>
  Modelled from the spec: the configuration module is not part of the sources at hand; the
  matcher reads two thresholds from it, whose defaults are 0.75 (auto-approve) and 0.60
  (review), doubles as the literals above.
\<close>

record MatchingConfig =
  minConfidenceThreshold :: rat
  reviewConfidenceThreshold :: rat

definition defaultConfig :: MatchingConfig where
  "defaultConfig =
     \<lparr>minConfidenceThreshold = 75 / 100, reviewConfidenceThreshold = double_0_60\<rparr>"

text \<open>
  Modelled from the spec: the database module is not part of the sources at hand. The table
  \<open>event_mappings\<close> is a list of rows keyed by (condition id, ticker), the conflict target
  of the insert statement; a row holds the eight columns the matcher writes. A query
  either succeeds or throws.
\<close>

record DbRow =
  row_id :: string
  polymarket_condition_id :: string
  kalshi_ticker :: string
  description :: string
  match_confidence :: rat
  match_method :: MatchMethod
  resolution_date :: JsDate
  is_active :: bool

text \<open>
  The file \<open>data/event_mappings.json\<close> as \<open>loadMappings\<close> reads it: the time it was
  generated and a list of rows. A row may leave out its outcome mapping
  (\<open>row.outcomeMapping || []\<close>) and its activity flag (\<open>row.isActive !== false\<close>). The
  dates are the \<open>Date\<close> objects made from the strings of the file.
\<close>

record JsonRow =
  json_id :: string
  json_polymarketConditionId :: string
  json_kalshiTicker :: string
  json_eventDescription :: string
  json_matchConfidence :: rat
  json_resolutionDate :: JsDate
  json_matchMethod :: MatchMethod
  json_outcomeMapping :: "OutcomeMapping list option"
  json_isActive :: "bool option"

record MappingsFile =
  generated :: JsDate
  mappings :: "JsonRow list"

text \<open>
  What a call reads from outside the matcher: whether the database answers, the identifier
  \<open>generateId()\<close> returns, the readings of the clock taken by \<open>new Date()\<close>, in the
  order the source takes them, and the mappings file (\<open>None\<close> when it does not exist or
  cannot be read and parsed).
\<close>

record Env =
  dbUp :: bool
  freshId :: string
  clock1 :: int
  clock2 :: int
  clock3 :: int
  mappingsFile :: "MappingsFile option"

text \<open>
  The matcher's own state (its two \<open>Map\<close>s, in insertion order) together with the table.
\<close>

record EventMatcher =
  manualMappings :: "(string \<times> string) list"
  cachedMappings :: "(string \<times> EventMapping) list"
  event_mappings :: "((string \<times> string) \<times> DbRow) list"

definition loadRow :: "DbRow \<Rightarrow> EventMatcher \<Rightarrow> EventMatcher" where
  "loadRow row st =
     (let mapping =
            \<lparr>mappingId = row_id row,
             polymarketConditionId = polymarket_condition_id row,
             kalshiTicker = kalshi_ticker row,
             eventDescription = description row,
             matchConfidence = match_confidence row,
             resolutionDate = resolution_date row,
             matchMethod = match_method row,
             outcomeMapping = [],
             isActive = is_active row,
             createdAt = InvalidDate,
             updatedAt = InvalidDate,
             scoreBreakdown = None,
             needsReview = None\<rparr>
      in st\<lparr>cachedMappings :=
               AList.update (polymarket_condition_id row) mapping (cachedMappings st),
             manualMappings :=
               AList.update (polymarket_condition_id row) (kalshi_ticker row) (manualMappings st)\<rparr>)"

text \<open>The body of the loop over the rows of the mappings file.\<close>

definition loadJsonRow :: "JsDate \<Rightarrow> JsonRow \<Rightarrow> EventMatcher \<Rightarrow> EventMatcher" where
  "loadJsonRow generated' row st =
     (let mapping =
            \<lparr>mappingId = json_id row,
             polymarketConditionId = json_polymarketConditionId row,
             kalshiTicker = json_kalshiTicker row,
             eventDescription = json_eventDescription row,
             matchConfidence = json_matchConfidence row,
             resolutionDate = json_resolutionDate row,
             matchMethod = json_matchMethod row,
             outcomeMapping = (case json_outcomeMapping row of None \<Rightarrow> [] | Some om \<Rightarrow> om),
             isActive = (json_isActive row \<noteq> Some False),
             createdAt = generated',
             updatedAt = generated',
             scoreBreakdown = None,
             needsReview = None\<rparr>
      in st\<lparr>cachedMappings :=
               AList.update (json_polymarketConditionId row) mapping (cachedMappings st),
             manualMappings :=
               AList.update (json_polymarketConditionId row) (json_kalshiTicker row)
                 (manualMappings st)\<rparr>)"

text \<open>
  \<open>loadMappings\<close>. When the database answers, every active row of the table becomes a
  cached mapping with an empty outcome mapping; the table keeps no creation and update
  times in this model, so the loaded mapping's are left invalid. When the query throws,
  the rows of the mappings file are loaded instead, active or not; without a file that
  can be read the state stays as it is.
\<close>

definition loadMappings :: "Env \<Rightarrow> EventMatcher \<Rightarrow> EventMatcher" where
  "loadMappings env st =
     (if dbUp env then fold loadRow (filter is_active (map snd (event_mappings st))) st
      else (case mappingsFile env of
              None \<Rightarrow> st
            | Some data \<Rightarrow> fold (loadJsonRow (generated data)) (mappings data) st))"

text \<open>
  The two object literals that \<open>findKalshiEquivalent\<close> builds from a question and a
  candidate and passes to \<open>calculateMatchScore\<close>.
\<close>

definition polyQuestionOf :: "PolymarketMarket \<Rightarrow> PolyQuestion" where
  "polyQuestionOf polymarket =
     \<lparr>PolyQuestion.title = PolyQuestion.title polymarket,
      endDate = endDate polymarket,
      category = PolyQuestion.category polymarket\<rparr>"

definition kalshiQuestionOf :: "KalshiMarket \<Rightarrow> KalshiQuestion" where
  "kalshiQuestionOf kalshi =
     \<lparr>KalshiQuestion.title = KalshiQuestion.title kalshi,
      expirationTime = expirationTime kalshi,
      category = KalshiQuestion.category kalshi\<rparr>"

text \<open>
  The loop of \<open>findKalshiEquivalent\<close>, carrying \<open>bestMatch\<close>; as in \<open>findBestMatch\<close> the
  scoring function is \<open>scoreOf\<close>.
\<close>

fun equivLoopWith ::
  "(PolyQuestion \<Rightarrow> KalshiQuestion \<Rightarrow> MatchScore) \<Rightarrow> MatchingConfig \<Rightarrow> PolymarketMarket
     \<Rightarrow> KalshiMarket list \<Rightarrow> (KalshiMarket \<times> MatchScore) option
     \<Rightarrow> (KalshiMarket \<times> MatchScore) option" where
  "equivLoopWith scoreOf cfg polymarket [] bestMatch = bestMatch"
| "equivLoopWith scoreOf cfg polymarket (kalshi # rest) bestMatch =
     (let score = scoreOf (polyQuestionOf polymarket) (kalshiQuestionOf kalshi)
      in if overall score < reviewConfidenceThreshold cfg
         then equivLoopWith scoreOf cfg polymarket rest bestMatch
         else if (case bestMatch of None \<Rightarrow> True
                  | Some best \<Rightarrow> overall score > overall (snd best))
         then equivLoopWith scoreOf cfg polymarket rest (Some (kalshi, score))
         else equivLoopWith scoreOf cfg polymarket rest bestMatch)"

definition createMapping ::
  "Env \<Rightarrow> PolymarketMarket \<Rightarrow> KalshiMarket \<Rightarrow> rat \<Rightarrow> MatchMethod \<Rightarrow> EventMapping" where
  "createMapping env polymarket kalshi confidence' method' =
     \<lparr>mappingId = freshId env,
      polymarketConditionId = conditionId polymarket,
      kalshiTicker = ticker kalshi,
      eventDescription = PolyQuestion.title polymarket,
      matchConfidence = confidence',
      resolutionDate = endDate polymarket,
      matchMethod = method',
      outcomeMapping = [\<lparr>polymarketOutcome = ''Yes'', kalshiSide = ''yes''\<rparr>,
                        \<lparr>polymarketOutcome = ''No'', kalshiSide = ''no''\<rparr>],
      isActive = True,
      createdAt = Date (clock1 env),
      updatedAt = Date (clock2 env),
      scoreBreakdown = None,
      needsReview = None\<rparr>"

text \<open>
  \<open>saveMapping\<close>: insert the row, or on a conflict of the key overwrite the stored
  confidence; then put the mapping in the cache. When the query throws, the error is
  logged and nothing changes.
\<close>

definition saveMapping :: "Env \<Rightarrow> EventMatcher \<Rightarrow> EventMapping \<Rightarrow> EventMatcher" where
  "saveMapping env st mapping =
     (if dbUp env then
        (let key = (polymarketConditionId mapping, kalshiTicker mapping);
             table' =
               (case map_of (event_mappings st) key of
                  Some row \<Rightarrow>
                    AList.update key (row\<lparr>match_confidence := matchConfidence mapping\<rparr>)
                      (event_mappings st)
                | None \<Rightarrow>
                    AList.update key
                      \<lparr>row_id = mappingId mapping,
                       polymarket_condition_id = polymarketConditionId mapping,
                       kalshi_ticker = kalshiTicker mapping,
                       description = eventDescription mapping,
                       match_confidence = matchConfidence mapping,
                       match_method = matchMethod mapping,
                       resolution_date = resolutionDate mapping,
                       is_active = isActive mapping\<rparr>
                      (event_mappings st))
         in st\<lparr>event_mappings := table',
                cachedMappings :=
                  AList.update (polymarketConditionId mapping) mapping (cachedMappings st)\<rparr>)
      else st)"

definition findKalshiEquivalentWith ::
  "(PolyQuestion \<Rightarrow> KalshiQuestion \<Rightarrow> MatchScore) \<Rightarrow> MatchingConfig \<Rightarrow> Env \<Rightarrow> EventMatcher
     \<Rightarrow> PolymarketMarket \<Rightarrow> KalshiMarket list \<Rightarrow> EventMapping option \<times> EventMatcher" where
  "findKalshiEquivalentWith scoreOf cfg env st polymarket kalshiMarkets =
     (let cached = map_of (cachedMappings st) (conditionId polymarket)
      in if (case cached of None \<Rightarrow> False | Some c \<Rightarrow> isActive c) then (cached, st)
         else
          (case equivLoopWith scoreOf cfg polymarket kalshiMarkets None of
             None \<Rightarrow> (None, st)
           | Some best \<Rightarrow>
               (let mapping = createMapping env polymarket (fst best)
                                (overall (snd best)) (method (snd best));
                    mapping' = mapping
                      \<lparr>scoreBreakdown := Some (breakdown (snd best)),
                       needsReview := Some (overall (snd best) < minConfidenceThreshold cfg)\<rparr>
                in (Some mapping', saveMapping env st mapping'))))"

definition findKalshiEquivalent ::
  "MatchingConfig \<Rightarrow> Env \<Rightarrow> EventMatcher \<Rightarrow> PolymarketMarket \<Rightarrow> KalshiMarket list
     \<Rightarrow> EventMapping option \<times> EventMatcher" where
  "findKalshiEquivalent cfg env st polymarket kalshiMarkets =
     findKalshiEquivalentWith calculateMatchScore cfg env st polymarket kalshiMarkets"

text \<open>\<open>description || ''\<close>: a missing or empty description reads as the empty string.\<close>

definition addManualMapping ::
  "Env \<Rightarrow> EventMatcher \<Rightarrow> string \<Rightarrow> string \<Rightarrow> string option \<Rightarrow> EventMapping \<times> EventMatcher" where
  "addManualMapping env st polymarketConditionId' kalshiTicker' description' =
     (let mapping =
            \<lparr>mappingId = freshId env,
             polymarketConditionId = polymarketConditionId',
             kalshiTicker = kalshiTicker',
             eventDescription = (case description' of None \<Rightarrow> [] | Some d \<Rightarrow> d),
             matchConfidence = 1,
             resolutionDate = Date (clock1 env),
             matchMethod = Manual,
             outcomeMapping = [\<lparr>polymarketOutcome = ''Yes'', kalshiSide = ''yes''\<rparr>,
                               \<lparr>polymarketOutcome = ''No'', kalshiSide = ''no''\<rparr>],
             isActive = True,
             createdAt = Date (clock2 env),
             updatedAt = Date (clock3 env),
             scoreBreakdown = None,
             needsReview = None\<rparr>;
          st' = saveMapping env st mapping
      in (mapping,
          st'\<lparr>manualMappings :=
                AList.update polymarketConditionId' kalshiTicker' (manualMappings st')\<rparr>))"

definition getActiveMappings :: "EventMatcher \<Rightarrow> EventMapping list" where
  "getActiveMappings st = filter isActive (map snd (cachedMappings st))"

definition canTradeOnMapping :: "MatchingConfig \<Rightarrow> EventMapping \<Rightarrow> bool" where
  "canTradeOnMapping cfg mapping = (\<not> matchConfidence mapping < minConfidenceThreshold cfg)"

section \<open>The example markets of the source\<close>

text \<open>
  The markets of the source's example usage; \<open>new Date('2024-11-05')\<close> is midnight UTC of
  that day.
\<close>

definition poly1 :: PolymarketMarket where
  "poly1 =
     \<lparr>PolyQuestion.title = ''Will Donald Trump win the 2024 Presidential Election?'',
      endDate = Date 1730764800000, category = Some ''politics'',
      conditionId = ''0x123'', outcomes = [''Yes'', ''No'']\<rparr>"

definition kalshi1a :: KalshiMarket where
  "kalshi1a =
     \<lparr>KalshiQuestion.title =
        ''Will the Republican candidate win the 2024 presidential election?'',
      expirationTime = Date 1730851200000, category = Some ''Politics'',
      ticker = ''PRES-2024-TRUMP''\<rparr>"

definition kalshi1b :: KalshiMarket where
  "kalshi1b =
     \<lparr>KalshiQuestion.title = ''Will Biden win the 2024 election?'',
      expirationTime = Date 1730851200000, category = Some ''Politics'',
      ticker = ''PRES-2024-OTHER''\<rparr>"

definition kalshi1 :: "KalshiMarket list" where
  "kalshi1 = [kalshi1a, kalshi1b]"

definition poly2 :: PolymarketMarket where
  "poly2 =
     \<lparr>PolyQuestion.title = ''Will Bitcoin trade above $100,000 in 2024?'',
      endDate = Date 1735603200000, category = Some ''crypto'',
      conditionId = ''0x456'', outcomes = [''Yes'', ''No'']\<rparr>"

definition kalshi2a :: KalshiMarket where
  "kalshi2a =
     \<lparr>KalshiQuestion.title = ''Will Bitcoin close above $100k on December 31, 2024?'',
      expirationTime = Date 1735603200000, category = Some ''Crypto'',
      ticker = ''BTC-100K-DEC''\<rparr>"

definition kalshi2b :: KalshiMarket where
  "kalshi2b =
     \<lparr>KalshiQuestion.title = ''Will Ethereum trade above $10k in 2024?'',
      expirationTime = Date 1735603200000, category = Some ''Crypto'',
      ticker = ''ETH-10K-DEC''\<rparr>"

definition kalshi2 :: "KalshiMarket list" where
  "kalshi2 = [kalshi2a, kalshi2b]"

text \<open>
  Further inputs on which the properties below are evaluated. The first two titles are
  equal up to case and outer white space: one has E acute as a capital (code unit 201)
  and ends in a no-break space (160), the other has the small letter (233).
\<close>

definition polyShout :: PolyQuestion where
  "polyShout =
     \<lparr>PolyQuestion.title = ''  Will BTC hit 100K in QU'' @ [CHR 0xC9] @ ''BEC?'' @ [CHR 0xA0],
      endDate = Date 0, category = None\<rparr>"

definition kalshiQuiet :: KalshiQuestion where
  "kalshiQuiet =
     \<lparr>KalshiQuestion.title = ''will btc hit 100k in qu'' @ [CHR 0xE9] @ ''bec?'',
      expirationTime = InvalidDate, category = Some ''Crypto''\<rparr>"

definition staleMapping :: EventMapping where
  "staleMapping =
     \<lparr>mappingId = ''m-1'', polymarketConditionId = ''0x123'', kalshiTicker = ''OLD-TICKER'',
      eventDescription = ''stored earlier'', matchConfidence = 1 / 10,
      resolutionDate = Date 0, matchMethod = Fuzzy, outcomeMapping = [], isActive = True,
      createdAt = InvalidDate, updatedAt = InvalidDate, scoreBreakdown = None,
      needsReview = None\<rparr>"

definition staleMatcher :: EventMatcher where
  "staleMatcher =
     \<lparr>manualMappings = [(''0x123'', ''OLD-TICKER'')],
      cachedMappings = [(''0x123'', staleMapping)],
      event_mappings = []\<rparr>"

definition env0 :: Env where
  "env0 =
     \<lparr>dbUp = True, freshId = ''id-7'', clock1 = 1000, clock2 = 1001, clock3 = 1002,
      mappingsFile = None\<rparr>"

text \<open>
  A question and two candidates whose overall scores are equal: the first candidate is
  scored by token overlap, the second, which resolves 31 days later, by keywords.
\<close>

definition tiePoly :: PolymarketMarket where
  "tiePoly =
     \<lparr>PolyQuestion.title = ''2024 tax cut'', endDate = Date 1735603200000,
      category = None, conditionId = ''0x789'', outcomes = [''Yes'', ''No'']\<rparr>"

definition tieFirst :: KalshiMarket where
  "tieFirst =
     \<lparr>KalshiQuestion.title = ''GOP 2024 tax cut'', expirationTime = Date 1735603200000,
      category = None, ticker = ''TAX-GOP''\<rparr>"

definition tieSecond :: KalshiMarket where
  "tieSecond =
     \<lparr>KalshiQuestion.title = ''Tax 2024'', expirationTime = Date 1738281600000,
      category = None, ticker = ''TAX-24''\<rparr>"

definition tieKalshi :: "KalshiMarket list" where
  "tieKalshi = [tieFirst, tieSecond]"

definition emptyMatcher :: EventMatcher where
  "emptyMatcher = \<lparr>manualMappings = [], cachedMappings = [], event_mappings = []\<rparr>"

text \<open>Two more candidates for the same question: one with the same title up to case and
  white space, one unrelated.\<close>

definition exactKalshi :: KalshiMarket where
  "exactKalshi =
     \<lparr>KalshiQuestion.title = '' 2024 TAX CUT'', expirationTime = InvalidDate,
      category = None, ticker = ''TAX-SAME''\<rparr>"

definition farKalshi :: KalshiMarket where
  "farKalshi =
     \<lparr>KalshiQuestion.title = ''Rain'', expirationTime = Date 0,
      category = None, ticker = ''RAIN''\<rparr>"

text \<open>A candidate with the title of \<open>tiePoly\<close> up to case that resolves 31 days later.\<close>

definition lateTwin :: KalshiMarket where
  "lateTwin =
     \<lparr>KalshiQuestion.title = ''2024 Tax Cut'',
      expirationTime = Date (1735603200000 + 31 * 86400000),
      category = None, ticker = ''TAX-LATE''\<rparr>"

section \<open>The keyword score as the specification words it\<close>

text \<open>
  Stated from the specification, for comparison with \<open>keywordOverlapScore\<close>: a group is
  present in a text, with the group's weight, when some synonym is a case-insensitive
  substring of the text; the score is the sum of min(weightA, weightB) over the groups
  present in both texts divided by the sum of max(weightA, weightB) over the groups present
  in either, and 0 when no group is present in either.
\<close>

definition presentIn :: "string \<Rightarrow> KeywordGroup \<Rightarrow> bool" where
  "presentIn text g =
     (\<exists>s\<in>set (synonyms g). includesStr (toLowerCase text) (toLowerCase s))"

definition weightIn :: "string \<Rightarrow> KeywordGroup \<Rightarrow> rat" where
  "weightIn text g = (if presentIn text g then weight g else 0)"

definition keywordScoreSpec :: "string \<Rightarrow> string \<Rightarrow> KeywordGroup list \<Rightarrow> rat" where
  "keywordScoreSpec text1 text2 keywordGroups =
     (let both = filter (\<lambda>g. presentIn text1 g \<and> presentIn text2 g) keywordGroups;
          either = filter (\<lambda>g. presentIn text1 g \<or> presentIn text2 g) keywordGroups
      in if either = [] then 0
         else (\<Sum>g\<leftarrow>both. min (weightIn text1 g) (weightIn text2 g))
              / (\<Sum>g\<leftarrow>either. max (weightIn text1 g) (weightIn text2 g)))"

text \<open>Keyword groups outside the shipped pattern: a synonym in upper case, two groups
  with one canonical name, a negative weight.\<close>

definition shoutGroups :: "KeywordGroup list" where
  "shoutGroups = [\<lparr>canonical = ''bitcoin'', synonyms = [''BTC''], weight = 1\<rparr>]"

definition twinGroups :: "KeywordGroup list" where
  "twinGroups =
     [\<lparr>canonical = ''party'', synonyms = [''gop''], weight = 1\<rparr>,
      \<lparr>canonical = ''party'', synonyms = [''dem''], weight = 1\<rparr>]"

definition debtGroups :: "KeywordGroup list" where
  "debtGroups = [\<lparr>canonical = ''rain'', synonyms = [''rain''], weight = - 1\<rparr>]"

section \<open>Invariants of the edit-distance loops\<close>

text \<open>While row i is being computed: the entries already rewritten obey the bound of
  row i, the others still that of row i - 1.\<close>

definition rowInv :: "nat \<Rightarrow> nat \<Rightarrow> nat \<Rightarrow> nat list \<Rightarrow> nat \<Rightarrow> bool" where
  "rowInv n i j costs lv \<longleftrightarrow>
     length costs = Suc n
   \<and> (\<forall>q. Suc q < j \<longrightarrow> costs ! q \<le> max i q)
   \<and> (\<forall>q. j \<le> Suc q \<and> q \<le> n \<longrightarrow> costs ! q \<le> max (i - 1) q)
   \<and> lv \<le> max i (j - 1)"

text \<open>After row i: every entry obeys the bound of row i.\<close>

definition rowDone :: "nat \<Rightarrow> nat \<Rightarrow> nat list \<Rightarrow> bool" where
  "rowDone n i costs \<longleftrightarrow> length costs = Suc n \<and> (\<forall>q\<le>n. costs ! q \<le> max i q)"

text \<open>Every weight recorded in a keyword map is at least 0.\<close>

definition nonnegMap :: "kwmap \<Rightarrow> bool" where
  "nonnegMap m = list_all (\<lambda>kv. 0 \<le> snd kv) m"

section \<open>Outcome correspondence as the specification words it\<close>

text \<open>
  Modelled from the spec: the market types are not part of the sources at hand. A Kalshi
  market has the two sides yes and no; a Polymarket market lists its outcomes. An outcome
  mapping pairs every outcome of both questions exactly once when its left entries are
  the Polymarket outcomes and its right entries the Kalshi sides, each taken once.
\<close>

definition kalshiSides :: "string list" where
  "kalshiSides = [''yes'', ''no'']"

definition pairsEachOnce :: "OutcomeMapping list \<Rightarrow> string list \<Rightarrow> string list \<Rightarrow> bool" where
  "pairsEachOnce om polyOutcomes sides =
     (mset (map polymarketOutcome om) = mset polyOutcomes
      \<and> mset (map kalshiSide om) = mset sides)"

text \<open>A Polymarket question whose outcomes are not Yes and No, and a Kalshi candidate with
  the same title.\<close>

definition upDownPoly :: PolymarketMarket where
  "upDownPoly =
     \<lparr>PolyQuestion.title = ''Bitcoin Up or Down'', endDate = Date 1735603200000,
      category = Some ''crypto'', conditionId = ''0xabc'', outcomes = [''Up'', ''Down'']\<rparr>"

definition upDownKalshi :: KalshiMarket where
  "upDownKalshi =
     \<lparr>KalshiQuestion.title = ''Bitcoin up or down'', expirationTime = Date 1735603200000,
      category = Some ''Crypto'', ticker = ''BTC-UPDOWN''\<rparr>"

text \<open>The matcher after a restart: nothing in memory, the table as the last run left it.\<close>

definition restarted :: "EventMatcher \<Rightarrow> EventMatcher" where
  "restarted st = \<lparr>manualMappings = [], cachedMappings = [], event_mappings = event_mappings st\<rparr>"

section \<open>Properties\<close>

subsection \<open>The combined score\<close>

lemma calculateMatchScore_cong:
  assumes "PolyQuestion.title a = PolyQuestion.title a'" and "endDate a = endDate a'"
    and "KalshiQuestion.title b = KalshiQuestion.title b'"
    and "expirationTime b = expirationTime b'"
  shows "calculateMatchScore a b = calculateMatchScore a' b'"
  unfolding calculateMatchScore_def calculateMatchScoreWith_def assms ..

text \<open>
  Claim C4. When the two titles are equal after lowercasing and trimming,
  \<open>calculateMatchScore\<close> returns overall 1 and method exact. This does not depend on what
  normalization does to a title: it holds for every function in the place of lowercasing
  and trimming.
\<close>

theorem calculateMatchScore_exact_title:
  "(trim (toLowerCase (PolyQuestion.title a)) = trim (toLowerCase (KalshiQuestion.title b)) \<longrightarrow>
      overall (calculateMatchScore a b) = 1 \<and> method (calculateMatchScore a b) = Exact)
   \<and> (normalizeTitle (PolyQuestion.title a) = normalizeTitle (KalshiQuestion.title b) \<longrightarrow>
      overall (calculateMatchScoreWith normalizeTitle a b) = 1
      \<and> method (calculateMatchScoreWith normalizeTitle a b) = Exact)"
proof -
  have exact: "f (PolyQuestion.title a) = f (KalshiQuestion.title b) \<Longrightarrow>
      calculateMatchScoreWith f a b =
        \<lparr>overall = 1, exact = 1, keyword = 1, token = 1, fuzzy = 1, date = 1, category = 1,
         method = Exact, confidence = High, breakdown = ''Exact title match''\<rparr>" for f
    by (simp add: calculateMatchScoreWith_def)
  have inst: "calculateMatchScore a b
                = calculateMatchScoreWith (\<lambda>title. trim (toLowerCase title)) a b"
    by (simp add: calculateMatchScore_def)
  show ?thesis
  proof (intro conjI impI)
    assume "trim (toLowerCase (PolyQuestion.title a)) = trim (toLowerCase (KalshiQuestion.title b))"
    then show "overall (calculateMatchScore a b) = 1" "method (calculateMatchScore a b) = Exact"
      unfolding inst by (simp_all add: exact)
  next
    assume "normalizeTitle (PolyQuestion.title a) = normalizeTitle (KalshiQuestion.title b)"
    then show "overall (calculateMatchScoreWith normalizeTitle a b) = 1"
      "method (calculateMatchScoreWith normalizeTitle a b) = Exact"
      by (simp_all add: exact)
  qed
qed

theorem calculateMatchScore_exact_title_witness:
  "trim (toLowerCase (PolyQuestion.title polyShout))
     = trim (toLowerCase (KalshiQuestion.title kalshiQuiet))
   \<and> overall (calculateMatchScore polyShout kalshiQuiet) = 1
   \<and> method (calculateMatchScore polyShout kalshiQuiet) = Exact"
proof -
  have h: "trim (toLowerCase (PolyQuestion.title polyShout))
             = trim (toLowerCase (KalshiQuestion.title kalshiQuiet))"
    by code_simp
  from calculateMatchScore_exact_title [of polyShout kalshiQuiet] h show ?thesis by blast
qed

lemma calculateMatchScoreWith_weighted:
  assumes "normalizeTitle (PolyQuestion.title a) \<noteq> normalizeTitle (KalshiQuestion.title b)"
  shows "(let s = calculateMatchScoreWith normalizeTitle a b in
           overall s = 4 / 10 * keyword s + 3 / 10 * token s + 15 / 100 * fuzzy s
                       + 1 / 10 * date s + 5 / 100 * MatchScore.category s
         \<and> keyword s = keywordOverlapScore (PolyQuestion.title a) (KalshiQuestion.title b)
                         (POLITICAL_KEYWORDS @ CRYPTO_KEYWORDS)
         \<and> token s = tokenOverlapScore (PolyQuestion.title a) (KalshiQuestion.title b)
         \<and> fuzzy s = levenshteinSimilarity (normalizeTitle (PolyQuestion.title a))
                       (normalizeTitle (KalshiQuestion.title b))
         \<and> date s = dateScoreOf (endDate a) (expirationTime b)
         \<and> MatchScore.category s = 1 / 2)"
  using assms by (simp add: calculateMatchScoreWith_def Let_def split: prod.splits)

text \<open>
  Claim C3. When the normalized titles differ, the overall score is
  0.40 keyword + 0.30 token + 0.15 fuzzy + 0.10 date + 0.05 category, where the keyword
  score is \<open>keywordOverlapScore\<close> of the two titles on the political and crypto groups,
  the token score is \<open>tokenOverlapScore\<close> of the two titles, the fuzzy score is
  \<open>levenshteinSimilarity\<close> of the normalized titles, the date score is the date score of
  the two dates, and the category score is the constant 0.5. This holds for
  \<open>calculateMatchScore\<close> and, whatever normalization does to a title, for every function
  in the place of lowercasing and trimming.
\<close>

theorem calculateMatchScore_weighted:
  "(trim (toLowerCase (PolyQuestion.title a)) \<noteq> trim (toLowerCase (KalshiQuestion.title b)) \<longrightarrow>
      (let s = calculateMatchScore a b in
           overall s = 4 / 10 * keyword s + 3 / 10 * token s + 15 / 100 * fuzzy s
                       + 1 / 10 * date s + 5 / 100 * MatchScore.category s
         \<and> keyword s = keywordOverlapScore (PolyQuestion.title a) (KalshiQuestion.title b)
                         (POLITICAL_KEYWORDS @ CRYPTO_KEYWORDS)
         \<and> token s = tokenOverlapScore (PolyQuestion.title a) (KalshiQuestion.title b)
         \<and> fuzzy s = levenshteinSimilarity (trim (toLowerCase (PolyQuestion.title a)))
                       (trim (toLowerCase (KalshiQuestion.title b)))
         \<and> date s = dateScoreOf (endDate a) (expirationTime b)
         \<and> MatchScore.category s = 1 / 2))
   \<and> (normalizeTitle (PolyQuestion.title a) \<noteq> normalizeTitle (KalshiQuestion.title b) \<longrightarrow>
      (let s = calculateMatchScoreWith normalizeTitle a b in
           overall s = 4 / 10 * keyword s + 3 / 10 * token s + 15 / 100 * fuzzy s
                       + 1 / 10 * date s + 5 / 100 * MatchScore.category s
         \<and> keyword s = keywordOverlapScore (PolyQuestion.title a) (KalshiQuestion.title b)
                         (POLITICAL_KEYWORDS @ CRYPTO_KEYWORDS)
         \<and> token s = tokenOverlapScore (PolyQuestion.title a) (KalshiQuestion.title b)
         \<and> fuzzy s = levenshteinSimilarity (normalizeTitle (PolyQuestion.title a))
                       (normalizeTitle (KalshiQuestion.title b))
         \<and> date s = dateScoreOf (endDate a) (expirationTime b)
         \<and> MatchScore.category s = 1 / 2))"
proof (intro conjI impI)
  assume "trim (toLowerCase (PolyQuestion.title a)) \<noteq> trim (toLowerCase (KalshiQuestion.title b))"
  from calculateMatchScoreWith_weighted [of "\<lambda>title. trim (toLowerCase title)", OF this]
  show "(let s = calculateMatchScore a b in
           overall s = 4 / 10 * keyword s + 3 / 10 * token s + 15 / 100 * fuzzy s
                       + 1 / 10 * date s + 5 / 100 * MatchScore.category s
         \<and> keyword s = keywordOverlapScore (PolyQuestion.title a) (KalshiQuestion.title b)
                         (POLITICAL_KEYWORDS @ CRYPTO_KEYWORDS)
         \<and> token s = tokenOverlapScore (PolyQuestion.title a) (KalshiQuestion.title b)
         \<and> fuzzy s = levenshteinSimilarity (trim (toLowerCase (PolyQuestion.title a)))
                       (trim (toLowerCase (KalshiQuestion.title b)))
         \<and> date s = dateScoreOf (endDate a) (expirationTime b)
         \<and> MatchScore.category s = 1 / 2)"
    unfolding calculateMatchScore_def .
next
  assume "normalizeTitle (PolyQuestion.title a) \<noteq> normalizeTitle (KalshiQuestion.title b)"
  then show "(let s = calculateMatchScoreWith normalizeTitle a b in
           overall s = 4 / 10 * keyword s + 3 / 10 * token s + 15 / 100 * fuzzy s
                       + 1 / 10 * date s + 5 / 100 * MatchScore.category s
         \<and> keyword s = keywordOverlapScore (PolyQuestion.title a) (KalshiQuestion.title b)
                         (POLITICAL_KEYWORDS @ CRYPTO_KEYWORDS)
         \<and> token s = tokenOverlapScore (PolyQuestion.title a) (KalshiQuestion.title b)
         \<and> fuzzy s = levenshteinSimilarity (normalizeTitle (PolyQuestion.title a))
                       (normalizeTitle (KalshiQuestion.title b))
         \<and> date s = dateScoreOf (endDate a) (expirationTime b)
         \<and> MatchScore.category s = 1 / 2)"
    by (rule calculateMatchScoreWith_weighted)
qed

theorem calculateMatchScore_weighted_witness:
  "trim (toLowerCase (PolyQuestion.title poly2))
     \<noteq> trim (toLowerCase (KalshiQuestion.title (kalshi2b)))
   \<and> overall (calculateMatchScore poly2 (kalshi2b)) =
           4 / 10 * keyword (calculateMatchScore poly2 (kalshi2b))
         + 3 / 10 * token (calculateMatchScore poly2 (kalshi2b))
         + 15 / 100 * fuzzy (calculateMatchScore poly2 (kalshi2b))
         + 1 / 10 * date (calculateMatchScore poly2 (kalshi2b))
         + 5 / 100 * MatchScore.category (calculateMatchScore poly2 (kalshi2b))
   \<and> MatchScore.category (calculateMatchScore poly2 (kalshi2b)) = 1 / 2"
proof -
  have h: "trim (toLowerCase (PolyQuestion.title poly2))
             \<noteq> trim (toLowerCase (KalshiQuestion.title (kalshi2b)))"
    by code_simp
  from calculateMatchScore_weighted [of poly2 kalshi2b] h show ?thesis
    unfolding Let_def by blast
qed

lemma calculateMatchScoreWith_date:
  "date (calculateMatchScoreWith normalizeTitle a b) =
     (if normalizeTitle (PolyQuestion.title a) = normalizeTitle (KalshiQuestion.title b) then 1
      else dateScoreOf (endDate a) (expirationTime b))"
  by (simp add: calculateMatchScoreWith_def Let_def split: prod.splits)

lemma dateScoreOf_valid:
  "dateScoreOf (Date t1) (Date t2) =
     (let d = (of_int \<bar>t1 - t2\<bar> :: rat) / 86400000
      in if d \<le> 7 then 1 else if d \<le> 30 then 7 / 10 + 3 / 10 * (30 - d) / 23 else 0)"
  by (auto simp add: dateScoreOf_def Let_def not_less)

lemma dateScoreOf_invalid:
  "d1 = InvalidDate \<or> d2 = InvalidDate \<Longrightarrow> dateScoreOf d1 d2 = 1"
  by (cases d1; cases d2) (auto simp add: dateScoreOf_def)

text \<open>
  Claim C5, as the code has it. The date score that \<open>calculateMatchScore\<close> reports is a
  function of the difference d in days of the two resolution timestamps only when the
  titles differ after normalization and both timestamps are valid: then it is 1 when d is
  at most 7, 0.7 + 0.3 (30 - d) / 23 when d is above 7 and at most 30, and 0 when d is
  above 30, so 1 at d = 0 and 0 at d = 31. When the titles are equal after normalization,
  or a timestamp is invalid, the date score is 1 whatever the timestamps. This holds for
  \<open>calculateMatchScore\<close> and for every function in the place of lowercasing and trimming.
\<close>

theorem date_score_piecewise:
  "(trim (toLowerCase (PolyQuestion.title a)) \<noteq> trim (toLowerCase (KalshiQuestion.title b))
      \<and> endDate a = Date t1 \<and> expirationTime b = Date t2 \<longrightarrow>
      date (calculateMatchScore a b) =
        (let d = (of_int \<bar>t1 - t2\<bar> :: rat) / 86400000
         in if d \<le> 7 then 1 else if d \<le> 30 then 7 / 10 + 3 / 10 * (30 - d) / 23 else 0)
      \<and> (t1 = t2 \<longrightarrow> date (calculateMatchScore a b) = 1)
      \<and> (\<bar>t1 - t2\<bar> = 31 * 86400000 \<longrightarrow> date (calculateMatchScore a b) = 0))
   \<and> (trim (toLowerCase (PolyQuestion.title a)) = trim (toLowerCase (KalshiQuestion.title b))
      \<or> endDate a = InvalidDate \<or> expirationTime b = InvalidDate \<longrightarrow>
      date (calculateMatchScore a b) = 1)
   \<and> (normalizeTitle (PolyQuestion.title a) \<noteq> normalizeTitle (KalshiQuestion.title b)
      \<and> endDate a = Date t1 \<and> expirationTime b = Date t2 \<longrightarrow>
      date (calculateMatchScoreWith normalizeTitle a b) =
        (let d = (of_int \<bar>t1 - t2\<bar> :: rat) / 86400000
         in if d \<le> 7 then 1 else if d \<le> 30 then 7 / 10 + 3 / 10 * (30 - d) / 23 else 0))
   \<and> (normalizeTitle (PolyQuestion.title a) = normalizeTitle (KalshiQuestion.title b)
      \<or> endDate a = InvalidDate \<or> expirationTime b = InvalidDate \<longrightarrow>
      date (calculateMatchScoreWith normalizeTitle a b) = 1)"
proof -
  have same: "t1 = t2 \<Longrightarrow> dateScoreOf (Date t1) (Date t2) = 1"
    by (simp add: dateScoreOf_def)
  have far: "\<bar>t1 - t2\<bar> = 31 * 86400000 \<Longrightarrow> dateScoreOf (Date t1) (Date t2) = 0"
    by (simp add: dateScoreOf_def)
  have g1: "normalizeTitle (PolyQuestion.title a) \<noteq> normalizeTitle (KalshiQuestion.title b)
      \<and> endDate a = Date t1 \<and> expirationTime b = Date t2 \<longrightarrow>
      date (calculateMatchScoreWith normalizeTitle a b) =
        (let d = (of_int \<bar>t1 - t2\<bar> :: rat) / 86400000
         in if d \<le> 7 then 1 else if d \<le> 30 then 7 / 10 + 3 / 10 * (30 - d) / 23 else 0)"
    for normalizeTitle
    by (simp add: calculateMatchScoreWith_date dateScoreOf_valid)
  have g2: "normalizeTitle (PolyQuestion.title a) = normalizeTitle (KalshiQuestion.title b)
      \<or> endDate a = InvalidDate \<or> expirationTime b = InvalidDate \<longrightarrow>
      date (calculateMatchScoreWith normalizeTitle a b) = 1"
    for normalizeTitle
    using dateScoreOf_invalid [of "endDate a" "expirationTime b"]
    by (auto simp add: calculateMatchScoreWith_date)
  have g3: "normalizeTitle (PolyQuestion.title a) \<noteq> normalizeTitle (KalshiQuestion.title b)
      \<and> endDate a = Date t1 \<and> expirationTime b = Date t2 \<longrightarrow>
        (t1 = t2 \<longrightarrow> date (calculateMatchScoreWith normalizeTitle a b) = 1)
      \<and> (\<bar>t1 - t2\<bar> = 31 * 86400000 \<longrightarrow> date (calculateMatchScoreWith normalizeTitle a b) = 0)"
    for normalizeTitle
    using same far by (simp add: calculateMatchScoreWith_date)
  from g1 [of "\<lambda>title. trim (toLowerCase title)"] g2 [of "\<lambda>title. trim (toLowerCase title)"]
    g3 [of "\<lambda>title. trim (toLowerCase title)"] g1 [of normalizeTitle] g2 [of normalizeTitle]
  show ?thesis
    unfolding calculateMatchScore_def by blast
qed

theorem date_score_piecewise_witness:
  "trim (toLowerCase (PolyQuestion.title tiePoly))
     \<noteq> trim (toLowerCase (KalshiQuestion.title tieSecond))
   \<and> endDate tiePoly = Date 1735603200000
   \<and> expirationTime tieSecond = Date (1735603200000 + 31 * 86400000)
   \<and> date (calculateMatchScore tiePoly tieSecond) = 0
   \<and> trim (toLowerCase (PolyQuestion.title tiePoly))
     = trim (toLowerCase (KalshiQuestion.title exactKalshi))
   \<and> date (calculateMatchScore tiePoly exactKalshi) = 1"
proof -
  have h1: "trim (toLowerCase (PolyQuestion.title tiePoly))
             \<noteq> trim (toLowerCase (KalshiQuestion.title tieSecond))"
    by code_simp
  have h2: "endDate tiePoly = Date 1735603200000"
    by (simp add: tiePoly_def)
  have h3: "expirationTime tieSecond = Date (1735603200000 + 31 * 86400000)"
    by (simp add: tieSecond_def)
  have h4: "trim (toLowerCase (PolyQuestion.title tiePoly))
             = trim (toLowerCase (KalshiQuestion.title exactKalshi))"
    by code_simp
  from date_score_piecewise [of tiePoly tieSecond 1735603200000 "1735603200000 + 31 * 86400000"]
    h1 h2 h3
  have a: "date (calculateMatchScore tiePoly tieSecond) = 0"
    by simp
  from date_score_piecewise [of tiePoly exactKalshi 0 0] h4
  have b: "date (calculateMatchScore tiePoly exactKalshi) = 1"
    by blast
  from h1 h2 h3 h4 a b show ?thesis by blast
qed

text \<open>
  The claim as stated fails: \<open>lateTwin\<close> resolves 31 days after \<open>tiePoly\<close>, the two titles
  are equal after normalization, and the date score reported is 1, not 0.
\<close>

theorem date_score_exact_title_counterexample:
  "endDate tiePoly = Date 1735603200000
   \<and> expirationTime lateTwin = Date (1735603200000 + 31 * 86400000)
   \<and> date (calculateMatchScore tiePoly lateTwin) = 1"
  by code_simp

subsection \<open>The event matcher\<close>

text \<open>
  Claim C10. When the cache holds an active mapping for the question's condition id,
  \<open>findKalshiEquivalent\<close> returns that mapping as it is stored and leaves the matcher and
  the table as they were, whatever the candidates, the thresholds and the environment:
  nothing is scored, created or saved.
\<close>

theorem findKalshiEquivalent_cached:
  assumes "map_of (cachedMappings st) (conditionId p) = Some m" and "isActive m"
  shows "findKalshiEquivalent cfg env st p ks = (Some m, st)"
  using assms by (simp add: findKalshiEquivalent_def findKalshiEquivalentWith_def)

theorem findKalshiEquivalent_cached_witness:
  "map_of (cachedMappings staleMatcher) (conditionId poly1) = Some staleMapping
   \<and> isActive staleMapping
   \<and> findKalshiEquivalent defaultConfig env0 staleMatcher poly1 kalshi1
       = (Some staleMapping, staleMatcher)"
proof -
  have h1: "map_of (cachedMappings staleMatcher) (conditionId poly1) = Some staleMapping"
    by (simp add: staleMatcher_def poly1_def)
  have h2: "isActive staleMapping"
    by (simp add: staleMapping_def)
  from findKalshiEquivalent_cached [OF h1 h2] h1 h2 show ?thesis by blast
qed

subsection \<open>The selection loops\<close>

lemma bestLoopWith_None:
  "fst (bestLoopWith sc p ks (bm, bo)) = None \<longleftrightarrow>
     bm = None \<and> (\<forall>k\<in>set ks. overall (sc p k) \<le> bo)"
  by (induction ks arbitrary: bm bo) (auto simp: Let_def)

lemma bestLoopWith_Some:
  "fst (bestLoopWith sc p ks (bm, bo)) = Some (k, s) \<Longrightarrow>
     (bm = Some (k, s) \<and> (\<forall>k'\<in>set ks. overall (sc p k') \<le> bo))
   \<or> (\<exists>xs ys. ks = xs @ k # ys \<and> s = sc p k
         \<and> bo < overall (sc p k)
         \<and> (\<forall>x\<in>set xs. overall (sc p x) < overall (sc p k))
         \<and> (\<forall>y\<in>set ys. overall (sc p y) \<le> overall (sc p k)))"
proof (induction ks arbitrary: bm bo)
  case Nil
  then show ?case by simp
next
  case (Cons a rest)
  let ?f = "\<lambda>k. overall (sc p k)"
  show ?case
  proof (cases "?f a > bo")
    case True
    with Cons.prems have r: "fst (bestLoopWith sc p rest (Some (a, sc p a), ?f a)) = Some (k, s)"
      by (simp add: Let_def)
    from Cons.IH [OF r] show ?thesis
    proof
      assume h: "Some (a, sc p a) = Some (k, s) \<and> (\<forall>k'\<in>set rest. ?f k' \<le> ?f a)"
      then have "a # rest = [] @ k # rest \<and> s = sc p k \<and> bo < ?f k
          \<and> (\<forall>x\<in>set []. ?f x < ?f k) \<and> (\<forall>y\<in>set rest. ?f y \<le> ?f k)"
        using True by auto
      then show ?thesis by blast
    next
      assume "\<exists>xs ys. rest = xs @ k # ys \<and> s = sc p k \<and> ?f a < ?f k
          \<and> (\<forall>x\<in>set xs. ?f x < ?f k) \<and> (\<forall>y\<in>set ys. ?f y \<le> ?f k)"
      then obtain xs ys where h: "rest = xs @ k # ys" "s = sc p k" "?f a < ?f k"
          "\<forall>x\<in>set xs. ?f x < ?f k" "\<forall>y\<in>set ys. ?f y \<le> ?f k"
        by blast
      then have "a # rest = (a # xs) @ k # ys \<and> s = sc p k \<and> bo < ?f k
          \<and> (\<forall>x\<in>set (a # xs). ?f x < ?f k) \<and> (\<forall>y\<in>set ys. ?f y \<le> ?f k)"
        using True by auto
      then show ?thesis by blast
    qed
  next
    case False
    with Cons.prems have r: "fst (bestLoopWith sc p rest (bm, bo)) = Some (k, s)"
      by (simp add: Let_def)
    from Cons.IH [OF r] show ?thesis
    proof
      assume "bm = Some (k, s) \<and> (\<forall>k'\<in>set rest. ?f k' \<le> bo)"
      then show ?thesis using False by auto
    next
      assume "\<exists>xs ys. rest = xs @ k # ys \<and> s = sc p k \<and> bo < ?f k
          \<and> (\<forall>x\<in>set xs. ?f x < ?f k) \<and> (\<forall>y\<in>set ys. ?f y \<le> ?f k)"
      then obtain xs ys where h: "rest = xs @ k # ys" "s = sc p k" "bo < ?f k"
          "\<forall>x\<in>set xs. ?f x < ?f k" "\<forall>y\<in>set ys. ?f y \<le> ?f k"
        by blast
      then have "a # rest = (a # xs) @ k # ys \<and> s = sc p k \<and> bo < ?f k
          \<and> (\<forall>x\<in>set (a # xs). ?f x < ?f k) \<and> (\<forall>y\<in>set ys. ?f y \<le> ?f k)"
        using False by auto
      then show ?thesis by blast
    qed
  qed
qed

lemma bestLoopWith_start:
  assumes "fst (bestLoopWith sc p ks (None, 0)) = Some (k, s)"
  shows "\<exists>xs ys. ks = xs @ k # ys \<and> s = sc p k
         \<and> 0 < overall (sc p k)
         \<and> (\<forall>x\<in>set xs. overall (sc p x) < overall (sc p k))
         \<and> (\<forall>y\<in>set ys. overall (sc p y) \<le> overall (sc p k))"
  using bestLoopWith_Some [OF assms] by simp

lemma split_at_index:
  fixes f :: "'a \<Rightarrow> rat"
  assumes "ks = xs @ k # ys"
    and "\<forall>x\<in>set xs. f x < f k" and "\<forall>y\<in>set ys. f y \<le> f k"
  shows "length xs < length ks \<and> ks ! length xs = k
       \<and> (\<forall>j<length ks. f (ks ! j) \<le> f k) \<and> (\<forall>j<length xs. f (ks ! j) < f k)"
proof -
  have a: "\<forall>z\<in>set ks. f z \<le> f k"
    using assms by (auto simp: less_imp_le)
  have b: "\<forall>j<length xs. f (ks ! j) < f k"
    using assms by (simp add: nth_append)
  have c: "\<forall>j<length ks. f (ks ! j) \<le> f k"
    using a by (metis nth_mem)
  have d: "length xs < length ks \<and> ks ! length xs = k"
    using assms(1) by simp
  from b c d show ?thesis by blast
qed

lemma equivLoopWith_keeps: "equivLoopWith sc cfg p ks (Some b) \<noteq> None"
  by (induction ks arbitrary: b) (simp_all add: Let_def)

lemma equivLoopWith_None:
  "equivLoopWith sc cfg p ks None = None \<longleftrightarrow>
     (\<forall>k\<in>set ks. overall (sc (polyQuestionOf p) (kalshiQuestionOf k)) < reviewConfidenceThreshold cfg)"
  by (induction ks) (simp_all add: Let_def equivLoopWith_keeps)

lemma equivLoopWith_Some:
  "equivLoopWith sc cfg p ks bm = Some (k, s) \<Longrightarrow>
     (bm = Some (k, s)
      \<and> (\<forall>k'\<in>set ks. overall (sc (polyQuestionOf p) (kalshiQuestionOf k')) < reviewConfidenceThreshold cfg
                       \<or> overall (sc (polyQuestionOf p) (kalshiQuestionOf k')) \<le> overall s))
   \<or> (\<exists>xs ys. ks = xs @ k # ys \<and> s = sc (polyQuestionOf p) (kalshiQuestionOf k)
         \<and> reviewConfidenceThreshold cfg \<le> overall (sc (polyQuestionOf p) (kalshiQuestionOf k))
         \<and> (\<forall>b. bm = Some b \<longrightarrow> overall (snd b) < overall (sc (polyQuestionOf p) (kalshiQuestionOf k)))
         \<and> (\<forall>x\<in>set xs. overall (sc (polyQuestionOf p) (kalshiQuestionOf x)) < overall (sc (polyQuestionOf p) (kalshiQuestionOf k)))
         \<and> (\<forall>y\<in>set ys. overall (sc (polyQuestionOf p) (kalshiQuestionOf y)) \<le> overall (sc (polyQuestionOf p) (kalshiQuestionOf k))))"
proof (induction ks arbitrary: bm)
  case Nil
  then show ?case by simp
next
  case (Cons a rest)
  let ?f = "\<lambda>k. overall (sc (polyQuestionOf p) (kalshiQuestionOf k))"
  let ?T = "reviewConfidenceThreshold cfg"
  let ?better = "(case bm of None \<Rightarrow> True | Some best \<Rightarrow> ?f a > overall (snd best))"
  show ?case
  proof (cases "?T \<le> ?f a \<and> ?better")
    case True
    with Cons.prems have r: "equivLoopWith sc cfg p rest (Some (a, sc (polyQuestionOf p) (kalshiQuestionOf a))) = Some (k, s)"
      by (simp add: Let_def)
    from True have bm: "\<forall>b. bm = Some b \<longrightarrow> overall (snd b) < ?f a"
      by (auto split: option.splits)
    from Cons.IH [OF r] show ?thesis
    proof
      assume h: "Some (a, sc (polyQuestionOf p) (kalshiQuestionOf a)) = Some (k, s)
                 \<and> (\<forall>k'\<in>set rest. ?f k' < ?T \<or> ?f k' \<le> overall s)"
      then have "a # rest = [] @ k # rest \<and> s = sc (polyQuestionOf p) (kalshiQuestionOf k) \<and> ?T \<le> ?f k
          \<and> (\<forall>b. bm = Some b \<longrightarrow> overall (snd b) < ?f k)
          \<and> (\<forall>x\<in>set []. ?f x < ?f k)"
        using True bm by auto
      moreover have "\<forall>y\<in>set rest. ?f y \<le> ?f k"
        using h True by fastforce
      ultimately show ?thesis by blast
    next
      assume "\<exists>xs ys. rest = xs @ k # ys \<and> s = sc (polyQuestionOf p) (kalshiQuestionOf k) \<and> ?T \<le> ?f k
          \<and> (\<forall>b. Some (a, sc (polyQuestionOf p) (kalshiQuestionOf a)) = Some b \<longrightarrow> overall (snd b) < ?f k)
          \<and> (\<forall>x\<in>set xs. ?f x < ?f k) \<and> (\<forall>y\<in>set ys. ?f y \<le> ?f k)"
      then obtain xs ys where h: "rest = xs @ k # ys" "s = sc (polyQuestionOf p) (kalshiQuestionOf k)" "?T \<le> ?f k"
          "?f a < ?f k" "\<forall>x\<in>set xs. ?f x < ?f k" "\<forall>y\<in>set ys. ?f y \<le> ?f k"
        by auto
      then have "a # rest = (a # xs) @ k # ys \<and> s = sc (polyQuestionOf p) (kalshiQuestionOf k) \<and> ?T \<le> ?f k
          \<and> (\<forall>b. bm = Some b \<longrightarrow> overall (snd b) < ?f k)
          \<and> (\<forall>x\<in>set (a # xs). ?f x < ?f k) \<and> (\<forall>y\<in>set ys. ?f y \<le> ?f k)"
        using bm by auto
      then show ?thesis by blast
    qed
  next
    case False
    with Cons.prems have r: "equivLoopWith sc cfg p rest bm = Some (k, s)"
      by (auto simp add: Let_def split: if_splits)
    from False have a: "?f a < ?T \<or> (\<exists>b. bm = Some b \<and> ?f a \<le> overall (snd b))"
      by (auto split: option.splits)
    from Cons.IH [OF r] show ?thesis
    proof
      assume h: "bm = Some (k, s) \<and> (\<forall>k'\<in>set rest. ?f k' < ?T \<or> ?f k' \<le> overall s)"
      then show ?thesis using a by auto
    next
      assume "\<exists>xs ys. rest = xs @ k # ys \<and> s = sc (polyQuestionOf p) (kalshiQuestionOf k) \<and> ?T \<le> ?f k
          \<and> (\<forall>b. bm = Some b \<longrightarrow> overall (snd b) < ?f k)
          \<and> (\<forall>x\<in>set xs. ?f x < ?f k) \<and> (\<forall>y\<in>set ys. ?f y \<le> ?f k)"
      then obtain xs ys where h: "rest = xs @ k # ys" "s = sc (polyQuestionOf p) (kalshiQuestionOf k)" "?T \<le> ?f k"
          "\<forall>b. bm = Some b \<longrightarrow> overall (snd b) < ?f k"
          "\<forall>x\<in>set xs. ?f x < ?f k" "\<forall>y\<in>set ys. ?f y \<le> ?f k"
        by auto
      have "?f a < ?f k" using a h(3) h(4) by auto
      then have "a # rest = (a # xs) @ k # ys \<and> s = sc (polyQuestionOf p) (kalshiQuestionOf k) \<and> ?T \<le> ?f k
          \<and> (\<forall>b. bm = Some b \<longrightarrow> overall (snd b) < ?f k)
          \<and> (\<forall>x\<in>set (a # xs). ?f x < ?f k) \<and> (\<forall>y\<in>set ys. ?f y \<le> ?f k)"
        using h by auto
      then show ?thesis by blast
    qed
  qed
qed

lemma equivLoopWith_start:
  assumes "equivLoopWith sc cfg p ks None = Some (k, s)"
  shows "\<exists>xs ys. ks = xs @ k # ys \<and> s = sc (polyQuestionOf p) (kalshiQuestionOf k)
         \<and> reviewConfidenceThreshold cfg \<le> overall (sc (polyQuestionOf p) (kalshiQuestionOf k))
         \<and> (\<forall>x\<in>set xs. overall (sc (polyQuestionOf p) (kalshiQuestionOf x)) < overall (sc (polyQuestionOf p) (kalshiQuestionOf k)))
         \<and> (\<forall>y\<in>set ys. overall (sc (polyQuestionOf p) (kalshiQuestionOf y)) \<le> overall (sc (polyQuestionOf p) (kalshiQuestionOf k)))"
  using equivLoopWith_Some [OF assms] by simp

lemma calculateMatchScore_question:
  "calculateMatchScore (polyQuestionOf p) (kalshiQuestionOf k) = calculateMatchScore p k"
  by (rule calculateMatchScore_cong) (simp_all add: polyQuestionOf_def kalshiQuestionOf_def)

subsection \<open>The three tiers\<close>

lemma score_tie_first:
  "calculateMatchScore tiePoly (tieFirst) =
     \<lparr>overall = 53 / 80, exact = 0, keyword = 1 / 2, token = 3 / 4,
      fuzzy = 3 / 4, date = 1, category = 1 / 2, method = Token, confidence = Medium,
      breakdown = ''Keyword: 50%, Token: 75%, Fuzzy: 75%, Date: 100%''\<rparr>"
  by code_simp

lemma score_tie_second:
  "calculateMatchScore tiePoly (tieSecond) =
     \<lparr>overall = 53 / 80, exact = 0, keyword = 1, token = 2 / 3, fuzzy = 1 / 4,
      date = 0, category = 1 / 2, method = Keyword, confidence = Medium,
      breakdown = ''Keyword: 100%, Token: 67%, Fuzzy: 25%, Date: 0%''\<rparr>"
  by code_simp

lemma findBestMatch_tie:
  "findBestMatch tiePoly tieKalshi =
     Some \<lparr>matched = True, kalshiTicker = ''TAX-GOP'', kalshiTitle = ''GOP 2024 tax cut'',
           score = calculateMatchScore tiePoly tieFirst,
           needsReview = True, shouldTrade = False\<rparr>"
  by (simp add: findBestMatch_def findBestMatchWith_def tieKalshi_def Let_def
        score_tie_first score_tie_second double_0_60_def)
     (simp add: tieFirst_def)

lemma findKalshiEquivalentWith_miss:
  assumes "\<forall>c. map_of (cachedMappings st) (conditionId p) = Some c \<longrightarrow> \<not> isActive c"
  shows "findKalshiEquivalentWith sc cfg env st p ks =
          (case equivLoopWith sc cfg p ks None of
             None \<Rightarrow> (None, st)
           | Some best \<Rightarrow>
               (let mapping = createMapping env p (fst best)
                                (overall (snd best)) (method (snd best));
                    mapping' = mapping
                      \<lparr>scoreBreakdown := Some (breakdown (snd best)),
                       needsReview := Some (overall (snd best) < minConfidenceThreshold cfg)\<rparr>
                in (Some mapping', saveMapping env st mapping')))"
  using assms
  by (cases "map_of (cachedMappings st) (conditionId p)")
     (simp_all add: findKalshiEquivalentWith_def Let_def split: option.splits)

lemma findKalshiEquivalent_miss:
  assumes "\<forall>c. map_of (cachedMappings st) (conditionId p) = Some c \<longrightarrow> \<not> isActive c"
  shows "findKalshiEquivalent cfg env st p ks =
          (case equivLoopWith calculateMatchScore cfg p ks None of
             None \<Rightarrow> (None, st)
           | Some best \<Rightarrow>
               (let mapping = createMapping env p (fst best)
                                (overall (snd best)) (method (snd best));
                    mapping' = mapping
                      \<lparr>scoreBreakdown := Some (breakdown (snd best)),
                       needsReview := Some (overall (snd best) < minConfidenceThreshold cfg)\<rparr>
                in (Some mapping', saveMapping env st mapping')))"
  unfolding findKalshiEquivalent_def by (rule findKalshiEquivalentWith_miss [OF assms])

lemma Max_of_first_maximum:
  fixes f :: "'a \<Rightarrow> rat"
  assumes "ks = xs @ k # ys" and "\<forall>x\<in>set xs. f x < f k" and "\<forall>y\<in>set ys. f y \<le> f k"
  shows "Max (f ` set ks) = f k"
proof -
  have "\<forall>z\<in>set ks. f z \<le> f k" using assms by (auto simp: less_imp_le)
  moreover have "k \<in> set ks" using assms by simp
  ultimately show ?thesis by (intro Max_eqI) auto
qed

text \<open>
  What \<open>findBestMatch\<close> returns, in terms of the highest overall score m among the
  candidates: nothing when m is below the double 0.60, and otherwise the first candidate
  that scores m, with the two marks set from m.
\<close>

lemma findBestMatchWith_result:
  assumes "ks \<noteq> []"
  shows "(let m = Max ((\<lambda>k. overall (sc p k)) ` set ks) in
          (m < double_0_60 \<longrightarrow> findBestMatchWith sc p ks = None)
        \<and> (double_0_60 \<le> m \<longrightarrow>
             (\<exists>i<length ks. overall (sc p (ks ! i)) = m
                \<and> (\<forall>j<i. overall (sc p (ks ! j)) < m)
                \<and> findBestMatchWith sc p ks =
                    Some \<lparr>matched = True, kalshiTicker = ticker (ks ! i),
                          kalshiTitle = KalshiQuestion.title (ks ! i), score = sc p (ks ! i),
                          needsReview = (m < 75 / 100), shouldTrade = (75 / 100 \<le> m)\<rparr>)))"
proof -
  let ?f = "\<lambda>k. overall (sc p k)"
  let ?m = "Max (?f ` set ks)"
  have fin: "finite (?f ` set ks)" "?f ` set ks \<noteq> {}" using assms by auto
  have pos: "0 < double_0_60" by (simp add: double_0_60_def)
  show ?thesis
  proof (cases "fst (bestLoopWith sc p ks (None, 0))")
    case None
    then have "\<forall>k\<in>set ks. ?f k \<le> 0" by (simp add: bestLoopWith_None)
    then have "?m \<le> 0" using fin by simp
    with None pos show ?thesis by (simp add: findBestMatchWith_def Let_def)
  next
    case (Some ksc)
    obtain k s where ksc: "ksc = (k, s)" by (cases ksc)
    from bestLoopWith_start [OF Some [unfolded ksc]] obtain xs ys where d: "ks = xs @ k # ys"
      "s = sc p k" "\<forall>x\<in>set xs. ?f x < ?f k" "\<forall>y\<in>set ys. ?f y \<le> ?f k"
      by blast
    have m: "?m = ?f k" by (rule Max_of_first_maximum [OF d(1) d(3) d(4)])
    from split_at_index [OF d(1), of ?f, OF d(3) d(4)]
    have i: "length xs < length ks" "ks ! length xs = k" "\<forall>j<length xs. ?f (ks ! j) < ?f k"
      by blast+
    have r: "findBestMatchWith sc p ks =
               (if double_0_60 \<le> ?f k
                then Some \<lparr>matched = True, kalshiTicker = ticker k,
                           kalshiTitle = KalshiQuestion.title k, score = sc p k,
                           needsReview = (?f k < 75 / 100), shouldTrade = (75 / 100 \<le> ?f k)\<rparr>
                else None)"
      using Some ksc d(2) by (simp add: findBestMatchWith_def Let_def)
    have lo: "?f k < double_0_60 \<longrightarrow> findBestMatchWith sc p ks = None"
      using r by simp
    have hi: "double_0_60 \<le> ?f k \<longrightarrow>
             (\<exists>i<length ks. overall (sc p (ks ! i)) = ?f k
                \<and> (\<forall>j<i. overall (sc p (ks ! j)) < ?f k)
                \<and> findBestMatchWith sc p ks =
                    Some \<lparr>matched = True, kalshiTicker = ticker (ks ! i),
                          kalshiTitle = KalshiQuestion.title (ks ! i), score = sc p (ks ! i),
                          needsReview = (?f k < 75 / 100), shouldTrade = (75 / 100 \<le> ?f k)\<rparr>)"
    proof
      assume h: "double_0_60 \<le> ?f k"
      have "overall (sc p (ks ! length xs)) = ?f k
                \<and> (\<forall>j<length xs. overall (sc p (ks ! j)) < ?f k)
                \<and> findBestMatchWith sc p ks =
                    Some \<lparr>matched = True, kalshiTicker = ticker (ks ! length xs),
                          kalshiTitle = KalshiQuestion.title (ks ! length xs),
                          score = sc p (ks ! length xs),
                          needsReview = (?f k < 75 / 100), shouldTrade = (75 / 100 \<le> ?f k)\<rparr>"
        using i(3) r h by (simp add: i(2))
      with i(1) show "\<exists>i<length ks. overall (sc p (ks ! i)) = ?f k
                \<and> (\<forall>j<i. overall (sc p (ks ! j)) < ?f k)
                \<and> findBestMatchWith sc p ks =
                    Some \<lparr>matched = True, kalshiTicker = ticker (ks ! i),
                          kalshiTitle = KalshiQuestion.title (ks ! i), score = sc p (ks ! i),
                          needsReview = (?f k < 75 / 100), shouldTrade = (75 / 100 \<le> ?f k)\<rparr>"
        by blast
    qed
    from lo hi show ?thesis unfolding Let_def m by blast
  qed
qed

text \<open>
  The same for \<open>findKalshiEquivalent\<close> when no active mapping is cached for the question,
  with the review threshold of the configuration in the place of 0.60: the mapping made
  is the one \<open>createMapping\<close> builds from the first candidate that scores m, and it is
  saved.
\<close>

lemma findKalshiEquivalentWith_result:
  assumes "ks \<noteq> []"
    and miss: "\<forall>c. map_of (cachedMappings st) (conditionId p) = Some c \<longrightarrow> \<not> isActive c"
  shows "(let g = (\<lambda>k. sc (polyQuestionOf p) (kalshiQuestionOf k));
              m = Max ((\<lambda>k. overall (g k)) ` set ks) in
          (m < reviewConfidenceThreshold cfg \<longrightarrow>
             findKalshiEquivalentWith sc cfg env st p ks = (None, st))
        \<and> (reviewConfidenceThreshold cfg \<le> m \<longrightarrow>
             (\<exists>i<length ks. overall (g (ks ! i)) = m
                \<and> (\<forall>j<i. overall (g (ks ! j)) < m)
                \<and> (\<exists>mp. findKalshiEquivalentWith sc cfg env st p ks
                            = (Some mp, saveMapping env st mp)
                     \<and> mp = (createMapping env p (ks ! i) m (method (g (ks ! i))))
                              \<lparr>scoreBreakdown := Some (breakdown (g (ks ! i))),
                               needsReview := Some (m < minConfidenceThreshold cfg)\<rparr>))))"
proof -
  let ?g = "\<lambda>k. sc (polyQuestionOf p) (kalshiQuestionOf k)"
  let ?f = "\<lambda>k. overall (?g k)"
  let ?m = "Max (?f ` set ks)"
  let ?T = "reviewConfidenceThreshold cfg"
  have fin: "finite (?f ` set ks)" "?f ` set ks \<noteq> {}" using assms by auto
  show ?thesis
  proof (cases "equivLoopWith sc cfg p ks None")
    case None
    then have "\<forall>k\<in>set ks. ?f k < ?T" by (simp add: equivLoopWith_None)
    then have "?m < ?T" using fin by simp
    with None show ?thesis
      by (simp add: findKalshiEquivalentWith_miss [OF miss] Let_def)
  next
    case (Some ksc)
    obtain k s where ksc: "ksc = (k, s)" by (cases ksc)
    from equivLoopWith_start [OF Some [unfolded ksc]] obtain xs ys where d: "ks = xs @ k # ys"
      "s = ?g k" "?T \<le> ?f k"
      "\<forall>x\<in>set xs. ?f x < ?f k" "\<forall>y\<in>set ys. ?f y \<le> ?f k"
      by blast
    have m: "?m = ?f k" by (rule Max_of_first_maximum [OF d(1) d(4) d(5)])
    from split_at_index [OF d(1), of ?f, OF d(4) d(5)]
    have i: "length xs < length ks" "ks ! length xs = k" "\<forall>j<length xs. ?f (ks ! j) < ?f k"
      by blast+
    define mp where "mp = (createMapping env p k (?f k) (method (?g k)))
                              \<lparr>scoreBreakdown := Some (breakdown (?g k)),
                               needsReview := Some (?f k < minConfidenceThreshold cfg)\<rparr>"
    have r: "findKalshiEquivalentWith sc cfg env st p ks = (Some mp, saveMapping env st mp)"
      using Some ksc d(2) by (simp add: findKalshiEquivalentWith_miss [OF miss] Let_def mp_def)
    have "overall (?g (ks ! length xs)) = ?f k
                \<and> (\<forall>j<length xs. overall (?g (ks ! j)) < ?f k)
                \<and> (\<exists>mp. findKalshiEquivalentWith sc cfg env st p ks
                            = (Some mp, saveMapping env st mp)
                     \<and> mp = (createMapping env p (ks ! length xs) (?f k)
                                (method (?g (ks ! length xs))))
                              \<lparr>scoreBreakdown := Some (breakdown (?g (ks ! length xs))),
                               needsReview := Some (?f k < minConfidenceThreshold cfg)\<rparr>)"
      using i(3) r by (simp add: i(2) mp_def)
    with i(1) have "\<exists>i<length ks. overall (?g (ks ! i)) = ?f k
                \<and> (\<forall>j<i. overall (?g (ks ! j)) < ?f k)
                \<and> (\<exists>mp. findKalshiEquivalentWith sc cfg env st p ks
                            = (Some mp, saveMapping env st mp)
                     \<and> mp = (createMapping env p (ks ! i) (?f k) (method (?g (ks ! i))))
                              \<lparr>scoreBreakdown := Some (breakdown (?g (ks ! i))),
                               needsReview := Some (?f k < minConfidenceThreshold cfg)\<rparr>)"
      by blast
    with d(3) show ?thesis unfolding Let_def m by simp
  qed
qed

lemma score_exactKalshi:
  "calculateMatchScore tiePoly exactKalshi =
     \<lparr>overall = 1, exact = 1, keyword = 1, token = 1, fuzzy = 1, date = 1, category = 1,
      method = Exact, confidence = High, breakdown = ''Exact title match''\<rparr>"
  by code_simp

lemma score_farKalshi: "overall (calculateMatchScore tiePoly farKalshi) = 3 / 80"
  by code_simp

lemma double_0_60_nearest:
  "double_0_60 = 5404319552844595 / 2 ^ 53 \<and> \<bar>double_0_60 - 6 / 10\<bar> < 1 / 2 ^ 54
   \<and> double_0_60 < 6 / 10 \<and> double_0_60 < 75 / 100"
  by (simp add: double_0_60_def)

text \<open>
  Claim C1. Let m be the best overall score that the scoring function gives the
  candidates of a question, whatever that function is (the one of the source computes in
  doubles). When m is at least 0.75 the result of \<open>findBestMatch\<close> is marked for trading
  and not for review; when m is at least 0.60 and below 0.75 it is marked for review and
  not for trading; when m is below 0.60 \<open>findBestMatch\<close> returns nothing. With the default
  thresholds and no active cached mapping for the question, \<open>findKalshiEquivalent\<close>
  follows the same tiers: it creates a mapping of confidence m that needs no review and
  may be traded on, or one that needs review and may not be traded on, or it returns
  nothing and leaves the matcher as it was. Here 0.60 is the double of that literal.
\<close>

theorem three_tier_decision:
  assumes "ks \<noteq> []"
  shows "(let m = Max ((\<lambda>k. overall (scoreOf p k)) ` set ks) in
          (75 / 100 \<le> m \<longrightarrow>
             (\<exists>r. findBestMatchWith scoreOf p ks = Some r \<and> overall (score r) = m
                  \<and> shouldTrade r \<and> \<not> MatchResult.needsReview r))
        \<and> (double_0_60 \<le> m \<and> m < 75 / 100 \<longrightarrow>
             (\<exists>r. findBestMatchWith scoreOf p ks = Some r \<and> overall (score r) = m
                  \<and> MatchResult.needsReview r \<and> \<not> shouldTrade r))
        \<and> (m < double_0_60 \<longrightarrow> findBestMatchWith scoreOf p ks = None))
       \<and> (let m = Max ((\<lambda>k. overall (scoreOf' (polyQuestionOf p) (kalshiQuestionOf k))) ` set ks) in
          (\<forall>c. map_of (cachedMappings st) (conditionId p) = Some c \<longrightarrow> \<not> isActive c) \<longrightarrow>
             (75 / 100 \<le> m \<longrightarrow>
                (\<exists>mp st'. findKalshiEquivalentWith scoreOf' defaultConfig env st p ks = (Some mp, st')
                     \<and> matchConfidence mp = m
                     \<and> EventMapping.needsReview mp = Some False
                     \<and> canTradeOnMapping defaultConfig mp))
           \<and> (double_0_60 \<le> m \<and> m < 75 / 100 \<longrightarrow>
                (\<exists>mp st'. findKalshiEquivalentWith scoreOf' defaultConfig env st p ks = (Some mp, st')
                     \<and> matchConfidence mp = m
                     \<and> EventMapping.needsReview mp = Some True
                     \<and> \<not> canTradeOnMapping defaultConfig mp))
           \<and> (m < double_0_60 \<longrightarrow>
                findKalshiEquivalentWith scoreOf' defaultConfig env st p ks = (None, st)))"
proof -
  define m where "m = Max ((\<lambda>k. overall (scoreOf p k)) ` set ks)"
  define m' where
    "m' = Max ((\<lambda>k. overall (scoreOf' (polyQuestionOf p) (kalshiQuestionOf k))) ` set ks)"
  let ?miss = "\<forall>c. map_of (cachedMappings st) (conditionId p) = Some c \<longrightarrow> \<not> isActive c"
  let ?K = "findKalshiEquivalentWith scoreOf' defaultConfig env st p ks"
  have cfg: "minConfidenceThreshold defaultConfig = 75 / 100"
            "reviewConfidenceThreshold defaultConfig = double_0_60"
    by (simp_all add: defaultConfig_def)
  have lt: "double_0_60 < 75 / 100" by (simp add: double_0_60_def)
  from findBestMatchWith_result [OF assms, of scoreOf p]
  have lo: "m < double_0_60 \<longrightarrow> findBestMatchWith scoreOf p ks = None"
    and hi: "double_0_60 \<le> m \<longrightarrow>
               (\<exists>r. findBestMatchWith scoreOf p ks = Some r \<and> overall (score r) = m
                  \<and> shouldTrade r = (75 / 100 \<le> m)
                  \<and> MatchResult.needsReview r = (m < 75 / 100))"
    unfolding Let_def m_def by fastforce+
  have A1: "75 / 100 \<le> m \<longrightarrow>
             (\<exists>r. findBestMatchWith scoreOf p ks = Some r \<and> overall (score r) = m
                  \<and> shouldTrade r \<and> \<not> MatchResult.needsReview r)"
  proof
    assume h: "75 / 100 \<le> m"
    with lt have "double_0_60 \<le> m" by simp
    with hi obtain r where "findBestMatchWith scoreOf p ks = Some r" "overall (score r) = m"
        "shouldTrade r = (75 / 100 \<le> m)" "MatchResult.needsReview r = (m < 75 / 100)"
      by blast
    with h have "findBestMatchWith scoreOf p ks = Some r \<and> overall (score r) = m
                  \<and> shouldTrade r \<and> \<not> MatchResult.needsReview r"
      by (simp add: not_less)
    then show "\<exists>r. findBestMatchWith scoreOf p ks = Some r \<and> overall (score r) = m
                  \<and> shouldTrade r \<and> \<not> MatchResult.needsReview r"
      by blast
  qed
  have A2: "double_0_60 \<le> m \<and> m < 75 / 100 \<longrightarrow>
             (\<exists>r. findBestMatchWith scoreOf p ks = Some r \<and> overall (score r) = m
                  \<and> MatchResult.needsReview r \<and> \<not> shouldTrade r)"
  proof
    assume h: "double_0_60 \<le> m \<and> m < 75 / 100"
    with hi obtain r where "findBestMatchWith scoreOf p ks = Some r" "overall (score r) = m"
        "shouldTrade r = (75 / 100 \<le> m)" "MatchResult.needsReview r = (m < 75 / 100)"
      by blast
    with h have "findBestMatchWith scoreOf p ks = Some r \<and> overall (score r) = m
                  \<and> MatchResult.needsReview r \<and> \<not> shouldTrade r"
      by (simp add: not_le)
    then show "\<exists>r. findBestMatchWith scoreOf p ks = Some r \<and> overall (score r) = m
                  \<and> MatchResult.needsReview r \<and> \<not> shouldTrade r"
      by blast
  qed
  have B: "?miss \<longrightarrow>
             (double_0_60 \<le> m' \<longrightarrow>
               (\<exists>mp st'. ?K = (Some mp, st') \<and> matchConfidence mp = m'
                  \<and> EventMapping.needsReview mp = Some (m' < 75 / 100)
                  \<and> canTradeOnMapping defaultConfig mp = (75 / 100 \<le> m')))
           \<and> (m' < double_0_60 \<longrightarrow> ?K = (None, st))"
  proof
    assume miss: ?miss
    from findKalshiEquivalentWith_result [OF assms miss, of scoreOf' defaultConfig env]
    have l: "m' < double_0_60 \<longrightarrow> ?K = (None, st)"
      and h: "double_0_60 \<le> m' \<longrightarrow>
               (\<exists>i mp. ?K = (Some mp, saveMapping env st mp)
                  \<and> mp = (createMapping env p (ks ! i) m'
                            (method (scoreOf' (polyQuestionOf p) (kalshiQuestionOf (ks ! i)))))
                          \<lparr>scoreBreakdown :=
                             Some (breakdown (scoreOf' (polyQuestionOf p) (kalshiQuestionOf (ks ! i)))),
                           needsReview := Some (m' < 75 / 100)\<rparr>)"
      unfolding Let_def m'_def cfg by blast+
    have "double_0_60 \<le> m' \<longrightarrow>
               (\<exists>mp st'. ?K = (Some mp, st') \<and> matchConfidence mp = m'
                  \<and> EventMapping.needsReview mp = Some (m' < 75 / 100)
                  \<and> canTradeOnMapping defaultConfig mp = (75 / 100 \<le> m'))"
    proof
      assume "double_0_60 \<le> m'"
      with h obtain i mp where mp: "?K = (Some mp, saveMapping env st mp)"
          "mp = (createMapping env p (ks ! i) m'
                            (method (scoreOf' (polyQuestionOf p) (kalshiQuestionOf (ks ! i)))))
                          \<lparr>scoreBreakdown :=
                             Some (breakdown (scoreOf' (polyQuestionOf p) (kalshiQuestionOf (ks ! i)))),
                           needsReview := Some (m' < 75 / 100)\<rparr>"
        by blast
      have "matchConfidence mp = m' \<and> EventMapping.needsReview mp = Some (m' < 75 / 100)
            \<and> canTradeOnMapping defaultConfig mp = (75 / 100 \<le> m')"
        unfolding mp(2) by (auto simp add: createMapping_def canTradeOnMapping_def cfg)
      with mp(1) show "\<exists>mp st'. ?K = (Some mp, st') \<and> matchConfidence mp = m'
                  \<and> EventMapping.needsReview mp = Some (m' < 75 / 100)
                  \<and> canTradeOnMapping defaultConfig mp = (75 / 100 \<le> m')"
        by blast
    qed
    with l show "(double_0_60 \<le> m' \<longrightarrow>
               (\<exists>mp st'. ?K = (Some mp, st') \<and> matchConfidence mp = m'
                  \<and> EventMapping.needsReview mp = Some (m' < 75 / 100)
                  \<and> canTradeOnMapping defaultConfig mp = (75 / 100 \<le> m')))
           \<and> (m' < double_0_60 \<longrightarrow> ?K = (None, st))"
      by blast
  qed
  have B1: "?miss \<longrightarrow> 75 / 100 \<le> m' \<longrightarrow>
              (\<exists>mp st'. ?K = (Some mp, st') \<and> matchConfidence mp = m'
                     \<and> EventMapping.needsReview mp = Some False
                     \<and> canTradeOnMapping defaultConfig mp)"
  proof (intro impI)
    assume miss: ?miss and hi: "75 / 100 \<le> m'"
    with lt have "double_0_60 \<le> m'" by simp
    with B miss obtain mp st' where "?K = (Some mp, st')" "matchConfidence mp = m'"
        "EventMapping.needsReview mp = Some (m' < 75 / 100)"
        "canTradeOnMapping defaultConfig mp = (75 / 100 \<le> m')"
      by blast
    with hi have "?K = (Some mp, st') \<and> matchConfidence mp = m'
        \<and> EventMapping.needsReview mp = Some False \<and> canTradeOnMapping defaultConfig mp"
      by (simp add: not_less)
    then show "\<exists>mp st'. ?K = (Some mp, st') \<and> matchConfidence mp = m'
                     \<and> EventMapping.needsReview mp = Some False
                     \<and> canTradeOnMapping defaultConfig mp"
      by blast
  qed
  have B2: "?miss \<longrightarrow> double_0_60 \<le> m' \<and> m' < 75 / 100 \<longrightarrow>
              (\<exists>mp st'. ?K = (Some mp, st') \<and> matchConfidence mp = m'
                     \<and> EventMapping.needsReview mp = Some True
                     \<and> \<not> canTradeOnMapping defaultConfig mp)"
  proof (intro impI)
    assume miss: ?miss and mid: "double_0_60 \<le> m' \<and> m' < 75 / 100"
    with B obtain mp st' where "?K = (Some mp, st')" "matchConfidence mp = m'"
        "EventMapping.needsReview mp = Some (m' < 75 / 100)"
        "canTradeOnMapping defaultConfig mp = (75 / 100 \<le> m')"
      by blast
    with mid have "?K = (Some mp, st') \<and> matchConfidence mp = m'
        \<and> EventMapping.needsReview mp = Some True \<and> \<not> canTradeOnMapping defaultConfig mp"
      by (simp add: not_le)
    then show "\<exists>mp st'. ?K = (Some mp, st') \<and> matchConfidence mp = m'
                     \<and> EventMapping.needsReview mp = Some True
                     \<and> \<not> canTradeOnMapping defaultConfig mp"
      by blast
  qed
  have B3: "?miss \<longrightarrow> m' < double_0_60 \<longrightarrow> ?K = (None, st)"
    using B by blast
  show ?thesis
    unfolding Let_def m_def [symmetric] m'_def [symmetric]
    using A1 A2 lo B1 B2 B3 by blast
qed

theorem three_tier_decision_witness:
  "[exactKalshi] \<noteq> [] \<and> tieKalshi \<noteq> [] \<and> [farKalshi] \<noteq> []
   \<and> map_of (cachedMappings emptyMatcher) (conditionId tiePoly) = None
   \<and> map_option (\<lambda>r. (shouldTrade r, MatchResult.needsReview r))
        (findBestMatch tiePoly [exactKalshi]) = Some (True, False)
   \<and> map_option (\<lambda>r. (shouldTrade r, MatchResult.needsReview r))
        (findBestMatch tiePoly tieKalshi) = Some (False, True)
   \<and> findBestMatch tiePoly [farKalshi] = None
   \<and> map_option (\<lambda>m. (EventMapping.needsReview m, canTradeOnMapping defaultConfig m))
        (fst (findKalshiEquivalent defaultConfig env0 emptyMatcher tiePoly [exactKalshi]))
        = Some (Some False, True)
   \<and> map_option (\<lambda>m. (EventMapping.needsReview m, canTradeOnMapping defaultConfig m))
        (fst (findKalshiEquivalent defaultConfig env0 emptyMatcher tiePoly tieKalshi))
        = Some (Some True, False)
   \<and> findKalshiEquivalent defaultConfig env0 emptyMatcher tiePoly [farKalshi]
        = (None, emptyMatcher)"
proof -
  have miss: "\<forall>c. map_of (cachedMappings emptyMatcher) (conditionId tiePoly) = Some c
                \<longrightarrow> \<not> isActive c"
    by (simp add: emptyMatcher_def)
  have m1: "Max ((\<lambda>k. overall (calculateMatchScore tiePoly k)) ` set [exactKalshi]) = 1"
    "Max ((\<lambda>k. overall (calculateMatchScore (polyQuestionOf tiePoly) (kalshiQuestionOf k)))
            ` set [exactKalshi]) = 1"
    by (simp_all add: calculateMatchScore_question score_exactKalshi)
  have m2: "Max ((\<lambda>k. overall (calculateMatchScore tiePoly k)) ` set tieKalshi) = 53 / 80"
    "Max ((\<lambda>k. overall (calculateMatchScore (polyQuestionOf tiePoly) (kalshiQuestionOf k)))
            ` set tieKalshi) = 53 / 80"
    by (simp_all add: calculateMatchScore_question tieKalshi_def score_tie_first score_tie_second)
  have m3: "Max ((\<lambda>k. overall (calculateMatchScore tiePoly k)) ` set [farKalshi]) = 3 / 80"
    "Max ((\<lambda>k. overall (calculateMatchScore (polyQuestionOf tiePoly) (kalshiQuestionOf k)))
            ` set [farKalshi]) = 3 / 80"
    by (simp_all add: calculateMatchScore_question score_farKalshi)
  have n1: "[exactKalshi] \<noteq> []" and n2: "tieKalshi \<noteq> []" and n3: "[farKalshi] \<noteq> []"
    by (simp_all add: tieKalshi_def)
  have t1: "(\<exists>r. findBestMatch tiePoly [exactKalshi] = Some r
                \<and> shouldTrade r \<and> \<not> MatchResult.needsReview r)
          \<and> (\<exists>mp st'. findKalshiEquivalent defaultConfig env0 emptyMatcher tiePoly [exactKalshi]
                         = (Some mp, st')
                \<and> EventMapping.needsReview mp = Some False
                \<and> canTradeOnMapping defaultConfig mp)"
    using three_tier_decision [OF n1, where scoreOf = calculateMatchScore
        and scoreOf' = calculateMatchScore and p = tiePoly and st = emptyMatcher and env = env0]
      miss
    unfolding Let_def m1 findBestMatch_def [symmetric] findKalshiEquivalent_def [symmetric]
    by (simp add: double_0_60_def, blast)
  have t2: "(\<exists>r. findBestMatch tiePoly tieKalshi = Some r
                \<and> MatchResult.needsReview r \<and> \<not> shouldTrade r)
          \<and> (\<exists>mp st'. findKalshiEquivalent defaultConfig env0 emptyMatcher tiePoly tieKalshi
                         = (Some mp, st')
                \<and> EventMapping.needsReview mp = Some True
                \<and> \<not> canTradeOnMapping defaultConfig mp)"
    using three_tier_decision [OF n2, where scoreOf = calculateMatchScore
        and scoreOf' = calculateMatchScore and p = tiePoly and st = emptyMatcher and env = env0]
      miss
    unfolding Let_def m2 findBestMatch_def [symmetric] findKalshiEquivalent_def [symmetric]
    by (simp add: double_0_60_def, blast)
  have t3: "findBestMatch tiePoly [farKalshi] = None
          \<and> findKalshiEquivalent defaultConfig env0 emptyMatcher tiePoly [farKalshi]
               = (None, emptyMatcher)"
    using three_tier_decision [OF n3, where scoreOf = calculateMatchScore
        and scoreOf' = calculateMatchScore and p = tiePoly and st = emptyMatcher and env = env0]
      miss
    unfolding Let_def m3 findBestMatch_def [symmetric] findKalshiEquivalent_def [symmetric]
    by (simp add: double_0_60_def)
  from t1 obtain r1 mp1 st1 where r1: "findBestMatch tiePoly [exactKalshi] = Some r1"
      "shouldTrade r1" "\<not> MatchResult.needsReview r1"
      "findKalshiEquivalent defaultConfig env0 emptyMatcher tiePoly [exactKalshi] = (Some mp1, st1)"
      "EventMapping.needsReview mp1 = Some False" "canTradeOnMapping defaultConfig mp1"
    by blast
  from t2 obtain r2 mp2 st2 where r2: "findBestMatch tiePoly tieKalshi = Some r2"
      "MatchResult.needsReview r2" "\<not> shouldTrade r2"
      "findKalshiEquivalent defaultConfig env0 emptyMatcher tiePoly tieKalshi = (Some mp2, st2)"
      "EventMapping.needsReview mp2 = Some True" "\<not> canTradeOnMapping defaultConfig mp2"
    by blast
  have none: "map_of (cachedMappings emptyMatcher) (conditionId tiePoly) = None"
    by (simp add: emptyMatcher_def)
  show ?thesis
    using n2 t3 none by (simp add: r1 r2)
qed

subsection \<open>Which candidate is selected\<close>

text \<open>
  Claim C2, as the code has it. For every question, every non-empty list of candidates
  and every scoring function: when the highest overall score among the candidates
  reaches the threshold (the double 0.60 in \<open>findBestMatch\<close>; the review threshold of the
  configuration in \<open>findKalshiEquivalent\<close>, when no active mapping is cached for the
  question), the candidate returned is the first in the list that has that highest
  score, with its ticker and its score: among candidates of equal best score the one of
  lowest index is returned, whatever their methods. When the highest score is below the
  threshold, nothing is returned.
\<close>

theorem best_match_first_maximum:
  assumes "ks \<noteq> []"
  shows "(double_0_60 \<le> Max ((\<lambda>k. overall (scoreOf p k)) ` set ks) \<longrightarrow>
           (\<exists>i<length ks.
                (\<forall>j<length ks. overall (scoreOf p (ks ! j)) \<le> overall (scoreOf p (ks ! i)))
              \<and> (\<forall>j<i. overall (scoreOf p (ks ! j)) < overall (scoreOf p (ks ! i)))
              \<and> map_option (\<lambda>r. (MatchResult.kalshiTicker r, kalshiTitle r, score r))
                   (findBestMatchWith scoreOf p ks)
                 = Some (ticker (ks ! i), KalshiQuestion.title (ks ! i), scoreOf p (ks ! i))))
       \<and> (Max ((\<lambda>k. overall (scoreOf p k)) ` set ks) < double_0_60 \<longrightarrow>
            findBestMatchWith scoreOf p ks = None)
       \<and> ((\<forall>c. map_of (cachedMappings st) (conditionId p) = Some c \<longrightarrow> \<not> isActive c) \<longrightarrow>
            (reviewConfidenceThreshold cfg
               \<le> Max ((\<lambda>k. overall (scoreOf' (polyQuestionOf p) (kalshiQuestionOf k))) ` set ks) \<longrightarrow>
              (\<exists>i<length ks.
                   (\<forall>j<length ks. overall (scoreOf' (polyQuestionOf p) (kalshiQuestionOf (ks ! j)))
                                    \<le> overall (scoreOf' (polyQuestionOf p) (kalshiQuestionOf (ks ! i))))
                 \<and> (\<forall>j<i. overall (scoreOf' (polyQuestionOf p) (kalshiQuestionOf (ks ! j)))
                            < overall (scoreOf' (polyQuestionOf p) (kalshiQuestionOf (ks ! i))))
                 \<and> map_option (\<lambda>m. (EventMapping.kalshiTicker m, matchConfidence m, matchMethod m))
                      (fst (findKalshiEquivalentWith scoreOf' cfg env st p ks))
                    = Some (ticker (ks ! i),
                            overall (scoreOf' (polyQuestionOf p) (kalshiQuestionOf (ks ! i))),
                            method (scoreOf' (polyQuestionOf p) (kalshiQuestionOf (ks ! i))))))
          \<and> (Max ((\<lambda>k. overall (scoreOf' (polyQuestionOf p) (kalshiQuestionOf k))) ` set ks)
               < reviewConfidenceThreshold cfg \<longrightarrow>
              fst (findKalshiEquivalentWith scoreOf' cfg env st p ks) = None))"
proof -
  let ?f = "\<lambda>k. overall (scoreOf p k)"
  let ?g = "\<lambda>k. scoreOf' (polyQuestionOf p) (kalshiQuestionOf k)"
  let ?h = "\<lambda>k. overall (?g k)"
  let ?miss = "\<forall>c. map_of (cachedMappings st) (conditionId p) = Some c \<longrightarrow> \<not> isActive c"
  have fin: "finite (?f ` set ks)" "finite (?h ` set ks)" by simp_all
  have maxf: "\<forall>j<length ks. ?f (ks ! j) \<le> Max (?f ` set ks)"
    using fin(1) by (simp add: Max_ge)
  have maxh: "\<forall>j<length ks. ?h (ks ! j) \<le> Max (?h ` set ks)"
    using fin(2) by (simp add: Max_ge)
  have A: "double_0_60 \<le> Max (?f ` set ks) \<longrightarrow>
           (\<exists>i<length ks.
                (\<forall>j<length ks. ?f (ks ! j) \<le> ?f (ks ! i))
              \<and> (\<forall>j<i. ?f (ks ! j) < ?f (ks ! i))
              \<and> map_option (\<lambda>r. (MatchResult.kalshiTicker r, kalshiTitle r, score r))
                   (findBestMatchWith scoreOf p ks)
                 = Some (ticker (ks ! i), KalshiQuestion.title (ks ! i), scoreOf p (ks ! i)))"
  proof
    assume "double_0_60 \<le> Max (?f ` set ks)"
    with findBestMatchWith_result [OF assms, of scoreOf p]
    obtain i where i: "i < length ks" "?f (ks ! i) = Max (?f ` set ks)"
        "\<forall>j<i. ?f (ks ! j) < Max (?f ` set ks)"
        "findBestMatchWith scoreOf p ks =
           Some \<lparr>matched = True, kalshiTicker = ticker (ks ! i),
                 kalshiTitle = KalshiQuestion.title (ks ! i), score = scoreOf p (ks ! i),
                 needsReview = (Max (?f ` set ks) < 75 / 100),
                 shouldTrade = (75 / 100 \<le> Max (?f ` set ks))\<rparr>"
      unfolding Let_def by blast
    have "(\<forall>j<length ks. ?f (ks ! j) \<le> ?f (ks ! i))
              \<and> (\<forall>j<i. ?f (ks ! j) < ?f (ks ! i))
              \<and> map_option (\<lambda>r. (MatchResult.kalshiTicker r, kalshiTitle r, score r))
                   (findBestMatchWith scoreOf p ks)
                 = Some (ticker (ks ! i), KalshiQuestion.title (ks ! i), scoreOf p (ks ! i))"
      using maxf i(3) by (simp add: i(2) i(4))
    with i(1) show "\<exists>i<length ks.
                (\<forall>j<length ks. ?f (ks ! j) \<le> ?f (ks ! i))
              \<and> (\<forall>j<i. ?f (ks ! j) < ?f (ks ! i))
              \<and> map_option (\<lambda>r. (MatchResult.kalshiTicker r, kalshiTitle r, score r))
                   (findBestMatchWith scoreOf p ks)
                 = Some (ticker (ks ! i), KalshiQuestion.title (ks ! i), scoreOf p (ks ! i))"
      by blast
  qed
  have B: "Max (?f ` set ks) < double_0_60 \<longrightarrow> findBestMatchWith scoreOf p ks = None"
    using findBestMatchWith_result [OF assms, of scoreOf p] unfolding Let_def by blast
  have C: "?miss \<longrightarrow> reviewConfidenceThreshold cfg \<le> Max (?h ` set ks) \<longrightarrow>
              (\<exists>i<length ks.
                   (\<forall>j<length ks. ?h (ks ! j) \<le> ?h (ks ! i))
                 \<and> (\<forall>j<i. ?h (ks ! j) < ?h (ks ! i))
                 \<and> map_option (\<lambda>m. (EventMapping.kalshiTicker m, matchConfidence m, matchMethod m))
                      (fst (findKalshiEquivalentWith scoreOf' cfg env st p ks))
                    = Some (ticker (ks ! i), ?h (ks ! i), method (?g (ks ! i))))"
  proof (intro impI)
    assume miss: ?miss and "reviewConfidenceThreshold cfg \<le> Max (?h ` set ks)"
    with findKalshiEquivalentWith_result [OF assms miss, of scoreOf' cfg env]
    obtain i mp where i: "i < length ks" "?h (ks ! i) = Max (?h ` set ks)"
        "\<forall>j<i. ?h (ks ! j) < Max (?h ` set ks)"
        "findKalshiEquivalentWith scoreOf' cfg env st p ks = (Some mp, saveMapping env st mp)"
        "mp = (createMapping env p (ks ! i) (Max (?h ` set ks)) (method (?g (ks ! i))))
                \<lparr>scoreBreakdown := Some (breakdown (?g (ks ! i))),
                 needsReview := Some (Max (?h ` set ks) < minConfidenceThreshold cfg)\<rparr>"
      unfolding Let_def by blast
    have f: "EventMapping.kalshiTicker mp = ticker (ks ! i)" "matchConfidence mp = ?h (ks ! i)"
        "matchMethod mp = method (?g (ks ! i))"
      unfolding i(5) by (simp_all add: createMapping_def i(2))
    have "(\<forall>j<length ks. ?h (ks ! j) \<le> ?h (ks ! i))
                 \<and> (\<forall>j<i. ?h (ks ! j) < ?h (ks ! i))
                 \<and> map_option (\<lambda>m. (EventMapping.kalshiTicker m, matchConfidence m, matchMethod m))
                      (fst (findKalshiEquivalentWith scoreOf' cfg env st p ks))
                    = Some (ticker (ks ! i), ?h (ks ! i), method (?g (ks ! i)))"
      using maxh i(3) by (simp add: i(2) i(4) f)
    with i(1) show "\<exists>i<length ks.
                   (\<forall>j<length ks. ?h (ks ! j) \<le> ?h (ks ! i))
                 \<and> (\<forall>j<i. ?h (ks ! j) < ?h (ks ! i))
                 \<and> map_option (\<lambda>m. (EventMapping.kalshiTicker m, matchConfidence m, matchMethod m))
                      (fst (findKalshiEquivalentWith scoreOf' cfg env st p ks))
                    = Some (ticker (ks ! i), ?h (ks ! i), method (?g (ks ! i)))"
      by blast
  qed
  have D: "?miss \<longrightarrow> Max (?h ` set ks) < reviewConfidenceThreshold cfg \<longrightarrow>
              fst (findKalshiEquivalentWith scoreOf' cfg env st p ks) = None"
  proof (intro impI)
    assume miss: ?miss and "Max (?h ` set ks) < reviewConfidenceThreshold cfg"
    with findKalshiEquivalentWith_result [OF assms miss, of scoreOf' cfg env]
    have "findKalshiEquivalentWith scoreOf' cfg env st p ks = (None, st)"
      unfolding Let_def by blast
    then show "fst (findKalshiEquivalentWith scoreOf' cfg env st p ks) = None" by simp
  qed
  from A B C D show ?thesis by blast
qed

theorem best_match_first_maximum_witness:
  "tieKalshi \<noteq> []
   \<and> double_0_60 \<le> Max ((\<lambda>k. overall (calculateMatchScore tiePoly k)) ` set tieKalshi)
   \<and> map_of (cachedMappings emptyMatcher) (conditionId tiePoly) = None
   \<and> reviewConfidenceThreshold defaultConfig
        \<le> Max ((\<lambda>k. overall (calculateMatchScore (polyQuestionOf tiePoly) (kalshiQuestionOf k)))
                 ` set tieKalshi)
   \<and> findBestMatch tiePoly tieKalshi \<noteq> None
   \<and> map_option (\<lambda>r. overall (calculateMatchScore tiePoly tieSecond) \<le> overall (score r))
        (findBestMatch tiePoly tieKalshi) = Some True
   \<and> map_option (\<lambda>r. score r \<in> calculateMatchScore tiePoly ` set tieKalshi)
        (findBestMatch tiePoly tieKalshi) = Some True
   \<and> map_option (\<lambda>m. overall (calculateMatchScore tiePoly tieSecond) \<le> matchConfidence m)
        (fst (findKalshiEquivalent defaultConfig env0 emptyMatcher tiePoly tieKalshi)) = Some True
   \<and> map_option (\<lambda>m. EventMapping.kalshiTicker m \<in> ticker ` set tieKalshi)
        (fst (findKalshiEquivalent defaultConfig env0 emptyMatcher tiePoly tieKalshi)) = Some True"
proof -
  let ?g = "\<lambda>k. calculateMatchScore (polyQuestionOf tiePoly) (kalshiQuestionOf k)"
  have n: "tieKalshi \<noteq> []" by (simp add: tieKalshi_def)
  have m: "double_0_60 \<le> Max ((\<lambda>k. overall (calculateMatchScore tiePoly k)) ` set tieKalshi)"
    by (simp add: tieKalshi_def score_tie_first score_tie_second double_0_60_def)
  have none: "map_of (cachedMappings emptyMatcher) (conditionId tiePoly) = None"
    by (simp add: emptyMatcher_def)
  then have miss: "\<forall>c. map_of (cachedMappings emptyMatcher) (conditionId tiePoly) = Some c
                     \<longrightarrow> \<not> isActive c"
    by simp
  have m': "reviewConfidenceThreshold defaultConfig \<le> Max ((\<lambda>k. overall (?g k)) ` set tieKalshi)"
    by (simp add: calculateMatchScore_question tieKalshi_def score_tie_first score_tie_second
          defaultConfig_def double_0_60_def)
  note inst = best_match_first_maximum [OF n, where scoreOf = calculateMatchScore
      and scoreOf' = calculateMatchScore and p = tiePoly and st = emptyMatcher
      and cfg = defaultConfig and env = env0]
  from inst m
  obtain i where i: "i < length tieKalshi"
      "\<forall>j<length tieKalshi. overall (calculateMatchScore tiePoly (tieKalshi ! j))
                             \<le> overall (calculateMatchScore tiePoly (tieKalshi ! i))"
      "map_option (\<lambda>r. (MatchResult.kalshiTicker r, kalshiTitle r, score r))
         (findBestMatch tiePoly tieKalshi)
       = Some (ticker (tieKalshi ! i), KalshiQuestion.title (tieKalshi ! i),
               calculateMatchScore tiePoly (tieKalshi ! i))"
    unfolding findBestMatch_def [symmetric] by blast
  from inst miss m'
  obtain j where j: "j < length tieKalshi"
      "\<forall>l<length tieKalshi. overall (?g (tieKalshi ! l)) \<le> overall (?g (tieKalshi ! j))"
      "map_option (\<lambda>m. (EventMapping.kalshiTicker m, matchConfidence m, matchMethod m))
         (fst (findKalshiEquivalent defaultConfig env0 emptyMatcher tiePoly tieKalshi))
       = Some (ticker (tieKalshi ! j), overall (?g (tieKalshi ! j)), method (?g (tieKalshi ! j)))"
    unfolding findKalshiEquivalent_def [symmetric] by blast
  from i(3) obtain r where r: "findBestMatch tiePoly tieKalshi = Some r"
      "score r = calculateMatchScore tiePoly (tieKalshi ! i)"
    by (cases "findBestMatch tiePoly tieKalshi") auto
  from j(3) obtain mp where mp:
      "fst (findKalshiEquivalent defaultConfig env0 emptyMatcher tiePoly tieKalshi) = Some mp"
      "EventMapping.kalshiTicker mp = ticker (tieKalshi ! j)"
      "matchConfidence mp = overall (calculateMatchScore tiePoly (tieKalshi ! j))"
    by (cases "fst (findKalshiEquivalent defaultConfig env0 emptyMatcher tiePoly tieKalshi)")
       (auto simp: calculateMatchScore_question)
  have second: "1 < length tieKalshi" "tieKalshi ! 1 = tieSecond"
    by (simp_all add: tieKalshi_def)
  with i(2) have a: "overall (calculateMatchScore tiePoly tieSecond)
                   \<le> overall (calculateMatchScore tiePoly (tieKalshi ! i))"
    by metis
  from second j(2) have b: "overall (calculateMatchScore tiePoly tieSecond)
                   \<le> overall (calculateMatchScore tiePoly (tieKalshi ! j))"
    unfolding calculateMatchScore_question by metis
  have c: "calculateMatchScore tiePoly (tieKalshi ! i)
                   \<in> calculateMatchScore tiePoly ` set tieKalshi"
    using i(1) by simp
  have d: "ticker (tieKalshi ! j) \<in> ticker ` set tieKalshi"
    using j(1) by simp
  from n m none m' a b c d show ?thesis
    by (simp add: r mp)
qed

text \<open>
  The claim as stated fails. The two candidates of \<open>tiePoly\<close> have the same overall score,
  the second is scored by keywords and the first by token overlap, and both functions
  return the first. And for a list that is not empty but whose best score is below the
  threshold, both return nothing.
\<close>

theorem method_tie_break_counterexample:
  "overall (calculateMatchScore tiePoly tieFirst) = overall (calculateMatchScore tiePoly tieSecond)
   \<and> method (calculateMatchScore tiePoly tieFirst) = Token
   \<and> method (calculateMatchScore tiePoly tieSecond) = Keyword
   \<and> map_option MatchResult.kalshiTicker (findBestMatch tiePoly [tieFirst, tieSecond])
       = Some (ticker tieFirst)
   \<and> map_option EventMapping.kalshiTicker
        (fst (findKalshiEquivalent defaultConfig env0 emptyMatcher tiePoly [tieFirst, tieSecond]))
       = Some (ticker tieFirst)
   \<and> ticker tieFirst \<noteq> ticker tieSecond
   \<and> findBestMatch tiePoly [farKalshi] = None
   \<and> fst (findKalshiEquivalent defaultConfig env0 emptyMatcher tiePoly [farKalshi]) = None"
proof -
  have a: "map_option MatchResult.kalshiTicker (findBestMatch tiePoly [tieFirst, tieSecond])
             = Some (ticker tieFirst)"
    by (simp add: findBestMatch_def findBestMatchWith_def Let_def score_tie_first
          score_tie_second double_0_60_def)
  have b: "equivLoopWith calculateMatchScore defaultConfig tiePoly [tieFirst, tieSecond] None
             = Some (tieFirst, calculateMatchScore tiePoly tieFirst)"
    by (simp add: calculateMatchScore_question score_tie_first score_tie_second
          defaultConfig_def double_0_60_def)
  have c: "map_option EventMapping.kalshiTicker
        (fst (findKalshiEquivalent defaultConfig env0 emptyMatcher tiePoly [tieFirst, tieSecond]))
       = Some (ticker tieFirst)"
    by (simp add: findKalshiEquivalent_def findKalshiEquivalentWith_def emptyMatcher_def b
          Let_def createMapping_def del: equivLoopWith.simps)
  have d: "ticker tieFirst \<noteq> ticker tieSecond"
    by (simp add: tieFirst_def tieSecond_def)
  have e: "findBestMatch tiePoly [farKalshi] = None"
    by (simp add: findBestMatch_def findBestMatchWith_def Let_def score_farKalshi
          double_0_60_def)
  have f: "fst (findKalshiEquivalent defaultConfig env0 emptyMatcher tiePoly [farKalshi]) = None"
    by (simp add: findKalshiEquivalent_def findKalshiEquivalentWith_def emptyMatcher_def
          calculateMatchScore_question score_farKalshi defaultConfig_def double_0_60_def)
  from a c d e f show ?thesis
    by (simp add: score_tie_first score_tie_second)
qed

subsection \<open>The example of the source\<close>

lemma calculateMatchScore_date_cong:
  assumes "PolyQuestion.title a = PolyQuestion.title a'"
    and "KalshiQuestion.title b = KalshiQuestion.title b'"
    and "dateScoreOf (endDate a) (expirationTime b) = dateScoreOf (endDate a') (expirationTime b')"
  shows "calculateMatchScore a b = calculateMatchScore a' b'"
  unfolding calculateMatchScore_def calculateMatchScoreWith_def assms ..

lemma score_poly1_kalshi1a:
  "calculateMatchScore poly1 kalshi1a =
     \<lparr>overall = 36419 / 59800, exact = 0, keyword = 27 / 46, token = 1 / 2,
      fuzzy = 43 / 65, date = 1, category = 1 / 2, method = Combined, confidence = Low,
      breakdown = ''Keyword: 59%, Token: 50%, Fuzzy: 66%, Date: 100%''\<rparr>"
  by code_simp

lemma score_poly1_kalshi1b:
  "overall (calculateMatchScore poly1 kalshi1b) = 337987 / 697480"
  by code_simp

text \<open>
  Claim C7. On the source's own example (the Trump question against the Republican
  candidate question, resolution dates one day apart or equal, so that the date score is
  1) the code computes keyword 27/46, token 1/2 and fuzzy 43/65, hence an overall score of
  36419/59800, about 0.609: below 0.75, method combined, confidence low, and
  \<open>findBestMatch\<close> marks the pair for review, not for trading. The claimed score of about
  0.76 and the auto-approve tier are not what the code yields.
\<close>

theorem trump_example_needs_review:
  "calculateMatchScore poly1 kalshi1a =
     \<lparr>overall = 36419 / 59800, exact = 0, keyword = 27 / 46, token = 1 / 2,
      fuzzy = 43 / 65, date = 1, category = 1 / 2, method = Combined, confidence = Low,
      breakdown = ''Keyword: 59%, Token: 50%, Fuzzy: 66%, Date: 100%''\<rparr>
   \<and> calculateMatchScore poly1 (kalshi1a\<lparr>expirationTime := endDate poly1\<rparr>)
       = calculateMatchScore poly1 kalshi1a
   \<and> overall (calculateMatchScore poly1 kalshi1a) < 75 / 100
   \<and> findBestMatch poly1 kalshi1 =
       Some \<lparr>matched = True, kalshiTicker = ''PRES-2024-TRUMP'',
             kalshiTitle = ''Will the Republican candidate win the 2024 presidential election?'',
             score = calculateMatchScore poly1 kalshi1a,
             needsReview = True, shouldTrade = False\<rparr>"
proof -
  have d: "dateScoreOf (endDate poly1) (endDate poly1)
           = dateScoreOf (endDate poly1) (expirationTime kalshi1a)"
    by (simp add: poly1_def kalshi1a_def dateScoreOf_def)
  have same: "calculateMatchScore poly1 (kalshi1a\<lparr>expirationTime := endDate poly1\<rparr>)
       = calculateMatchScore poly1 kalshi1a"
    by (rule calculateMatchScore_date_cong) (simp_all add: d)
  have best: "findBestMatch poly1 kalshi1 =
       Some \<lparr>matched = True, kalshiTicker = ticker kalshi1a,
             kalshiTitle = KalshiQuestion.title kalshi1a,
             score = calculateMatchScore poly1 kalshi1a,
             needsReview = True, shouldTrade = False\<rparr>"
    by (simp add: findBestMatch_def findBestMatchWith_def kalshi1_def Let_def
          score_poly1_kalshi1a score_poly1_kalshi1b double_0_60_def)
  from same best show ?thesis
    by (simp add: score_poly1_kalshi1a) (simp add: kalshi1a_def)
qed

subsection \<open>The keyword score\<close>

lemma scanSynonyms_eq:
  "scanSynonyms n g syns found =
     (if \<exists>s\<in>set syns. includesStr n s
      then AList.update (canonical g) (max (getOr0 found (canonical g)) (weight g)) found
      else found)"
  by (induction syns) (auto simp: Let_def)

lemma update_fresh: "k \<notin> fst ` set al \<Longrightarrow> AList.update k v al = al @ [(k, v)]"
  by (induction al) auto

lemma getOr0_fresh: "k \<notin> fst ` set m \<Longrightarrow> getOr0 m k = 0"
  by (simp add: getOr0_def map_of_eq_None_iff [THEN iffD2])

lemma extractLoop_eq:
  assumes "distinct (map canonical gs)"
    and "\<forall>g\<in>set gs. canonical g \<notin> fst ` set found"
    and "\<forall>g\<in>set gs. 0 < weight g"
  shows "extractLoop n gs found =
           found @ map (\<lambda>g. (canonical g, weight g))
                     (filter (\<lambda>g. \<exists>s\<in>set (synonyms g). includesStr n s) gs)"
  using assms
proof (induction gs arbitrary: found)
  case Nil
  then show ?case by simp
next
  case (Cons g gs)
  let ?found' = "scanSynonyms n g (synonyms g) found"
  have fresh: "canonical g \<notin> fst ` set found" using Cons.prems(2) by simp
  have w: "max 0 (weight g) = weight g" using Cons.prems(3) by (simp add: max_def)
  have f': "?found' = (if \<exists>s\<in>set (synonyms g). includesStr n s
                       then found @ [(canonical g, weight g)] else found)"
    by (simp add: scanSynonyms_eq getOr0_fresh [OF fresh] update_fresh [OF fresh] w)
  have fresh': "\<forall>g'\<in>set gs. canonical g' \<notin> fst ` set ?found'"
  proof
    fix g' assume g': "g' \<in> set gs"
    then have "canonical g' \<notin> fst ` set found" using Cons.prems(2) by simp
    moreover have "canonical g \<notin> canonical ` set gs" using Cons.prems(1) by simp
    then have "canonical g' \<noteq> canonical g" using g' by (metis imageI)
    ultimately show "canonical g' \<notin> fst ` set ?found'" by (auto simp: f')
  qed
  have d: "distinct (map canonical gs)" and pos: "\<forall>g\<in>set gs. 0 < weight g"
    using Cons.prems by simp_all
  from Cons.IH [OF d fresh' pos] have "extractLoop n gs ?found' =
      ?found' @ map (\<lambda>g. (canonical g, weight g))
                     (filter (\<lambda>g. \<exists>s\<in>set (synonyms g). includesStr n s) gs)" .
  then show ?case by (simp add: f')
qed


lemma map_of_groups:
  assumes "distinct (map canonical gs)" and "g \<in> set gs"
  shows "map_of (map (\<lambda>g. (canonical g, weight g)) (filter Q gs)) (canonical g)
           = (if Q g then Some (weight g) else None)"
  using assms
proof (induction gs)
  case Nil
  then show ?case by simp
next
  case (Cons a gs)
  show ?case
  proof (cases "g = a")
    case True
    have "canonical a \<notin> canonical ` set gs" using Cons.prems(1) by simp
    then have "canonical a \<notin> fst ` set (map (\<lambda>g. (canonical g, weight g)) (filter Q gs))"
      by (auto simp: image_iff)
    then have "map_of (map (\<lambda>g. (canonical g, weight g)) (filter Q gs)) (canonical a) = None"
      by (simp add: map_of_eq_None_iff)
    with True show ?thesis by simp
  next
    case False
    with Cons.prems have g: "g \<in> set gs" and d: "distinct (map canonical gs)" by simp_all
    have "canonical a \<notin> canonical ` set gs" using Cons.prems(1) by simp
    then have "canonical g \<noteq> canonical a" using g by (metis imageI)
    with Cons.IH [OF d g] show ?thesis by simp
  qed
qed

lemma getOr0_groups:
  assumes "distinct (map canonical gs)" and "g \<in> set gs"
  shows "getOr0 (map (\<lambda>g. (canonical g, weight g)) (filter Q gs)) (canonical g)
           = (if Q g then weight g else 0)"
  by (simp add: getOr0_def map_of_groups [OF assms])

lemma overlapLoop_sums:
  "overlapLoop k1 k2 keys (a, b) =
     (a + (\<Sum>k\<leftarrow>keys. if getOr0 k1 k > 0 \<and> getOr0 k2 k > 0
                          then min (getOr0 k1 k) (getOr0 k2 k) else 0),
      b + (\<Sum>k\<leftarrow>keys. max (getOr0 k1 k) (getOr0 k2 k)))"
  by (induction keys arbitrary: a b) (simp_all add: Let_def)

lemma uniq_distinct: "distinct (uniq xs)"
  by (simp add: uniq_def)

lemma uniq_set: "set (uniq xs) = set xs"
  by (simp add: uniq_def)

lemma sum_list_same_set:
  fixes F :: "'a \<Rightarrow> rat"
  assumes "distinct xs" and "distinct ys" and "set xs = set ys"
  shows "sum_list (map F xs) = sum_list (map F ys)"
  using assms by (simp add: sum_list_distinct_conv_sum_set)

lemma sum_list_filter_indicator:
  fixes f :: "'a \<Rightarrow> rat"
  shows "(\<Sum>x\<leftarrow>xs. if Q x then f x else 0) = (\<Sum>x\<leftarrow>filter Q xs. f x)"
  by (induction xs) simp_all

lemma sum_list_pos:
  fixes f :: "'a \<Rightarrow> rat"
  assumes "xs \<noteq> []" and "\<forall>x\<in>set xs. 0 < f x"
  shows "0 < sum_list (map f xs)"
  using assms
proof (induction xs)
  case Nil
  then show ?case by simp
next
  case (Cons a xs)
  have "0 \<le> sum_list (map f xs)"
    using Cons.prems(2) by (intro sum_list_nonneg) (auto simp: less_imp_le)
  moreover have "0 < f a" using Cons.prems(2) by simp
  ultimately show ?case by simp
qed

text \<open>
  Claim C6, as the code has it. For keyword groups whose synonyms are all in lower case,
  whose canonical names are pairwise distinct and whose weights are positive (the shipped
  groups are such), the keyword score of two texts is the sum of min(weightA, weightB) over
  the groups present in both texts divided by the sum of max(weightA, weightB) over the
  groups present in either, and 0 when no group is present in either text.
\<close>

theorem keyword_score_formula:
  assumes lower: "\<forall>g\<in>set gs. \<forall>s\<in>set (synonyms g). toLowerCase s = s"
    and dist: "distinct (map canonical gs)"
    and pos: "\<forall>g\<in>set gs. 0 < weight g"
  shows "keywordOverlapScore t1 t2 gs = keywordScoreSpec t1 t2 gs"
proof -
  let ?P1 = "presentIn t1" and ?P2 = "presentIn t2"
  let ?kv = "\<lambda>g. (canonical g, weight g)"
  let ?E = "filter (\<lambda>g. ?P1 g \<or> ?P2 g) gs"
  let ?B = "filter (\<lambda>g. ?P1 g \<and> ?P2 g) gs"
  have present: "\<And>t. filter (\<lambda>g. \<exists>s\<in>set (synonyms g). includesStr (toLowerCase t) s) gs
                    = filter (presentIn t) gs"
    using lower by (intro filter_cong) (auto simp: presentIn_def)
  have ex: "\<And>t. extractKeywords t gs = map ?kv (filter (presentIn t) gs)"
    using extractLoop_eq [OF dist _ pos, of "[]"] by (simp add: extractKeywords_def present)
  define k1 where "k1 = extractKeywords t1 gs"
  define k2 where "k2 = extractKeywords t2 gs"
  have k1: "k1 = map ?kv (filter ?P1 gs)" and k2: "k2 = map ?kv (filter ?P2 gs)"
    by (simp_all add: k1_def k2_def ex)
  have w1: "\<And>g. g \<in> set gs \<Longrightarrow> getOr0 k1 (canonical g) = weightIn t1 g"
    by (simp add: k1 getOr0_groups [OF dist] weightIn_def)
  have w2: "\<And>g. g \<in> set gs \<Longrightarrow> getOr0 k2 (canonical g) = weightIn t2 g"
    by (simp add: k2 getOr0_groups [OF dist] weightIn_def)
  define allKeys where "allKeys = uniq (map fst k1 @ map fst k2)"
  have dE: "distinct (map canonical ?E)"
    using dist by (simp add: distinct_map_filter)
  have sE: "set allKeys = set (map canonical ?E)"
    by (auto simp: allKeys_def uniq_set k1 k2)
  have keys: "\<And>F :: string \<Rightarrow> rat. sum_list (map F allKeys) = sum_list (map F (map canonical ?E))"
    by (rule sum_list_same_set) (simp_all add: allKeys_def uniq_distinct dE sE [unfolded allKeys_def])
  have union: "(\<Sum>k\<leftarrow>allKeys. max (getOr0 k1 k) (getOr0 k2 k))
                 = (\<Sum>g\<leftarrow>?E. max (weightIn t1 g) (weightIn t2 g))"
    unfolding keys map_map comp_def
    by (rule arg_cong [where f = sum_list], rule map_cong) (simp_all add: w1 w2)
  have both_pos: "\<And>g. g \<in> set gs \<Longrightarrow>
                    (0 < weightIn t1 g \<and> 0 < weightIn t2 g) = (?P1 g \<and> ?P2 g)"
    using pos by (auto simp: weightIn_def)
  have inter: "(\<Sum>k\<leftarrow>allKeys. if getOr0 k1 k > 0 \<and> getOr0 k2 k > 0
                          then min (getOr0 k1 k) (getOr0 k2 k) else 0)
                 = (\<Sum>g\<leftarrow>?B. min (weightIn t1 g) (weightIn t2 g))"
  proof -
    have "(\<Sum>k\<leftarrow>allKeys. if getOr0 k1 k > 0 \<and> getOr0 k2 k > 0
                          then min (getOr0 k1 k) (getOr0 k2 k) else 0)
          = (\<Sum>g\<leftarrow>?E. if ?P1 g \<and> ?P2 g then min (weightIn t1 g) (weightIn t2 g) else 0)"
      unfolding keys map_map comp_def
      by (rule arg_cong [where f = sum_list], rule map_cong) (simp_all add: w1 w2 both_pos)
    also have "\<dots> = (\<Sum>g\<leftarrow>filter (\<lambda>g. ?P1 g \<and> ?P2 g) ?E. min (weightIn t1 g) (weightIn t2 g))"
      by (rule sum_list_filter_indicator)
    also have "filter (\<lambda>g. ?P1 g \<and> ?P2 g) ?E = ?B"
      by (auto intro: filter_cong)
    finally show ?thesis .
  qed
  have empty: "(k1 = [] \<and> k2 = []) = (?E = [])"
    by (auto simp: k1 k2 filter_empty_conv)
  have upos: "?E \<noteq> [] \<Longrightarrow> 0 < (\<Sum>g\<leftarrow>?E. max (weightIn t1 g) (weightIn t2 g))"
  proof (rule sum_list_pos)
    show "\<forall>g\<in>set ?E. 0 < max (weightIn t1 g) (weightIn t2 g)"
      using pos by (auto simp: weightIn_def max_def)
  qed
  show ?thesis
    unfolding keywordOverlapScore_def keywordScoreSpec_def
    unfolding k1_def [symmetric] k2_def [symmetric]
    by (simp add: Let_def empty allKeys_def [symmetric] overlapLoop_sums union inter upos)
qed


theorem keyword_score_formula_witness:
  "list_all (\<lambda>g. list_all (\<lambda>s. toLowerCase s = s) (synonyms g))
      (POLITICAL_KEYWORDS @ CRYPTO_KEYWORDS)
   \<and> distinct (map canonical (POLITICAL_KEYWORDS @ CRYPTO_KEYWORDS))
   \<and> list_all (\<lambda>g. 0 < weight g) (POLITICAL_KEYWORDS @ CRYPTO_KEYWORDS)
   \<and> keywordOverlapScore (PolyQuestion.title poly1) (KalshiQuestion.title kalshi1a)
        (POLITICAL_KEYWORDS @ CRYPTO_KEYWORDS)
       = keywordScoreSpec (PolyQuestion.title poly1) (KalshiQuestion.title kalshi1a)
           (POLITICAL_KEYWORDS @ CRYPTO_KEYWORDS)"
proof -
  have h1: "list_all (\<lambda>g. list_all (\<lambda>s. toLowerCase s = s) (synonyms g))
      (POLITICAL_KEYWORDS @ CRYPTO_KEYWORDS)"
    by code_simp
  have h2: "distinct (map canonical (POLITICAL_KEYWORDS @ CRYPTO_KEYWORDS))"
    by code_simp
  have h3: "list_all (\<lambda>g. 0 < weight g) (POLITICAL_KEYWORDS @ CRYPTO_KEYWORDS)"
    by code_simp
  have "keywordOverlapScore (PolyQuestion.title poly1) (KalshiQuestion.title kalshi1a)
        (POLITICAL_KEYWORDS @ CRYPTO_KEYWORDS)
       = keywordScoreSpec (PolyQuestion.title poly1) (KalshiQuestion.title kalshi1a)
           (POLITICAL_KEYWORDS @ CRYPTO_KEYWORDS)"
    using h1 h2 h3
    by (intro keyword_score_formula) (simp_all only: list_all_iff)
  with h1 h2 h3 show ?thesis by blast
qed

text \<open>
  For arbitrary groups the claim fails. The text is lowercased but the synonym is not, so
  a synonym with a capital letter never matches; groups are recorded under their canonical
  name, so two groups sharing one merge; and a recorded weight is never below 0, so a
  negative weight counts as 0.
\<close>

theorem keyword_formula_counterexample:
  "keywordOverlapScore ''BTC up'' ''BTC down'' shoutGroups = 0
   \<and> keywordScoreSpec ''BTC up'' ''BTC down'' shoutGroups = 1
   \<and> keywordOverlapScore ''gop wins'' ''dem wins'' twinGroups = 1
   \<and> keywordScoreSpec ''gop wins'' ''dem wins'' twinGroups = 0
   \<and> keywordOverlapScore ''rain today'' ''rain tomorrow'' debtGroups = 0
   \<and> keywordScoreSpec ''rain today'' ''rain tomorrow'' debtGroups = 1"
  by code_simp

subsection \<open>The edit distance is at most the longer length\<close>

lemma innerLoop_row0:
  assumes "j \<le> Suc (length s2)"
  shows "innerLoop s1 s2 0 j [0..<j] lv = ([0..<Suc (length s2)], lv)"
  using assms
proof (induction "Suc (length s2) - j" arbitrary: j)
  case 0
  then have "j = Suc (length s2)" by simp
  then show ?case by (simp add: innerLoop.simps)
next
  case (Suc n)
  then have j: "j \<le> length s2" by simp
  have "arrayPut [0..<j] j j = [0..<Suc j]" by (simp add: arrayPut_def)
  moreover have "innerLoop s1 s2 0 (Suc j) [0..<Suc j] lv = ([0..<Suc (length s2)], lv)"
    using Suc.hyps(1) [of "Suc j"] Suc.hyps(2) j by simp
  ultimately show ?case
    using j by (subst innerLoop.simps) simp
qed

lemma innerLoop_bound:
  assumes "0 < i" and "rowInv (length s2) i j costs lv" and "j \<le> Suc (length s2)"
  shows "rowInv (length s2) i (Suc (length s2)) (fst (innerLoop s1 s2 i j costs lv))
           (snd (innerLoop s1 s2 i j costs lv))"
  using assms
proof (induction "Suc (length s2) - j" arbitrary: j costs lv)
  case 0
  then have "j = Suc (length s2)" by simp
  with 0 show ?case by (simp add: innerLoop.simps)
next
  case (Suc n)
  then have j: "j \<le> length s2" by simp
  show ?case
  proof (cases "j = 0")
    case True
    have "rowInv (length s2) i (Suc 0) costs lv"
      using Suc.prems(2) True by (auto simp: rowInv_def)
    from Suc.hyps(1) [of "Suc 0", OF _ Suc.prems(1) this] Suc.hyps(2) True
    have "rowInv (length s2) i (Suc (length s2)) (fst (innerLoop s1 s2 i (Suc 0) costs lv))
           (snd (innerLoop s1 s2 i (Suc 0) costs lv))"
      by simp
    moreover have "innerLoop s1 s2 i j costs lv = innerLoop s1 s2 i (Suc 0) costs lv"
      using True Suc.prems(1) by (subst innerLoop.simps) simp
    ultimately show ?thesis by simp
  next
    case False
    define nv where "nv = costs ! (j - 1)"
    define nv' where "nv' = (if s1 ! (i - 1) \<noteq> s2 ! (j - 1)
                   then min (min nv lv) (costs ! j) + 1 else nv)"
    define costs' where "costs' = arrayPut costs (j - 1) lv"
    have len: "length costs = Suc (length s2)" using Suc.prems(2) by (simp add: rowInv_def)
    have old: "nv \<le> max (i - 1) (j - 1)"
      using Suc.prems(2) False j by (simp add: rowInv_def nv_def)
    have nvb: "nv' \<le> max i j"
      using old False Suc.prems(1) by (auto simp: nv'_def)
    have "j - 1 < length costs" using len j by simp
    then have c': "costs' = costs[j - 1 := lv]"
      by (simp add: costs'_def arrayPut_def)
    have inv': "rowInv (length s2) i (Suc j) costs' nv'"
      unfolding rowInv_def
    proof (intro conjI allI impI)
      show "length costs' = Suc (length s2)" by (simp add: c' len)
      show "nv' \<le> max i (Suc j - 1)" using nvb by simp
    next
      fix q assume q: "Suc q < Suc j"
      show "costs' ! q \<le> max i q"
      proof (cases "q = j - 1")
        case True
        then show ?thesis using Suc.prems(2) len j False by (simp add: c' rowInv_def)
      next
        case False
        with q have "Suc q < j" by simp
        then show ?thesis using Suc.prems(2) False by (simp add: c' rowInv_def)
      qed
    next
      fix q assume q: "Suc j \<le> Suc q \<and> q \<le> length s2"
      then have "q \<noteq> j - 1" using False by arith
      then show "costs' ! q \<le> max (i - 1) q"
        using Suc.prems(2) q by (simp add: c' rowInv_def)
    qed
    from Suc.hyps(1) [of "Suc j", OF _ Suc.prems(1) inv'] Suc.hyps(2) j
    have "rowInv (length s2) i (Suc (length s2)) (fst (innerLoop s1 s2 i (Suc j) costs' nv'))
           (snd (innerLoop s1 s2 i (Suc j) costs' nv'))"
      by simp
    moreover have "innerLoop s1 s2 i j costs lv = innerLoop s1 s2 i (Suc j) costs' nv'"
      using False Suc.prems(1) j
      by (subst innerLoop.simps) (simp add: Let_def nv_def nv'_def costs'_def)
    ultimately show ?thesis by simp
  qed
qed


lemma outerLoop_bound:
  assumes "0 < i" and "i \<le> Suc (length s1)" and "rowDone (length s2) (i - 1) costs"
  shows "rowDone (length s2) (length s1) (outerLoop s1 s2 i costs)"
  using assms
proof (induction "Suc (length s1) - i" arbitrary: i costs)
  case 0
  then have "i = Suc (length s1)" by simp
  with 0 show ?case by (simp add: outerLoop.simps)
next
  case (Suc n)
  then have i: "i \<le> length s1" by simp
  define c' where "c' = fst (innerLoop s1 s2 i 0 costs i)"
  define lv' where "lv' = snd (innerLoop s1 s2 i 0 costs i)"
  define c'' where "c'' = arrayPut c' (length s2) lv'"
  have "rowInv (length s2) i 0 costs i"
    using Suc.prems(3) by (simp add: rowInv_def rowDone_def)
  from innerLoop_bound [OF Suc.prems(1) this, of s1]
  have inv: "rowInv (length s2) i (Suc (length s2)) c' lv'"
    by (simp add: c'_def lv'_def)
  then have len: "length c' = Suc (length s2)" by (simp add: rowInv_def)
  then have c'': "c'' = c'[length s2 := lv']" by (simp add: c''_def arrayPut_def)
  have row: "rowDone (length s2) (Suc i - 1) c''"
    unfolding rowDone_def
  proof (intro conjI allI impI)
    show "length c'' = Suc (length s2)" by (simp add: c'' len)
  next
    fix q assume q: "q \<le> length s2"
    show "c'' ! q \<le> max (Suc i - 1) q"
    proof (cases "q = length s2")
      case True
      then show ?thesis using inv len by (simp add: c'' rowInv_def)
    next
      case False
      with q have "Suc q < Suc (length s2)" by simp
      then show ?thesis using inv False by (simp add: c'' rowInv_def)
    qed
  qed
  from Suc.hyps(1) [of "Suc i", OF _ _ _ row] Suc.hyps(2) i
  have "rowDone (length s2) (length s1) (outerLoop s1 s2 (Suc i) c'')" by simp
  moreover have "outerLoop s1 s2 i costs = outerLoop s1 s2 (Suc i) c''"
    using i Suc.prems(1)
    by (subst outerLoop.simps) (simp add: Let_def c'_def lv'_def c''_def split: prod.splits)
  ultimately show ?case by simp
qed

lemma outerLoop_start:
  "outerLoop s1 s2 0 [] = outerLoop s1 s2 (Suc 0) [0..<Suc (length s2)]"
proof -
  have "innerLoop s1 s2 0 0 [0..<0] 0 = ([0..<Suc (length s2)], 0)"
    by (rule innerLoop_row0) simp
  then show ?thesis
    by (subst outerLoop.simps) simp
qed

lemma levenshteinDistance_le: "levenshteinDistance s1 s2 \<le> max (length s1) (length s2)"
proof -
  have "rowDone (length s2) (Suc 0 - 1) [0..<Suc (length s2)]"
    by (auto simp: rowDone_def nth_upt simp del: upt_Suc)
  from outerLoop_bound [OF _ _ this, of s1]
  have "rowDone (length s2) (length s1) (outerLoop s1 s2 0 [])"
    by (simp add: outerLoop_start)
  then show ?thesis
    by (simp add: levenshteinDistance_def rowDone_def)
qed

lemma levenshteinSimilarity_bounds:
  "0 \<le> levenshteinSimilarity s1 s2 \<and> levenshteinSimilarity s1 s2 \<le> 1"
proof -
  define longer where "longer = (if length s1 > length s2 then s1 else s2)"
  define shorter where "shorter = (if length s1 > length s2 then s2 else s1)"
  have "levenshteinDistance longer shorter \<le> max (length longer) (length shorter)"
    by (rule levenshteinDistance_le)
  also have "max (length longer) (length shorter) = length longer"
    by (simp add: longer_def shorter_def)
  finally have le: "levenshteinDistance longer shorter \<le> length longer" .
  show ?thesis
  proof (cases "length longer = 0")
    case True
    then show ?thesis
      by (simp add: levenshteinSimilarity_def longer_def [symmetric])
  next
    case False
    then have pos: "0 < (of_nat (length longer) :: rat)" by simp
    have a: "(of_nat (levenshteinDistance longer shorter) :: rat) \<le> of_nat (length longer)"
      using le by simp
    have "levenshteinSimilarity s1 s2 =
      (of_nat (length longer) - of_nat (levenshteinDistance longer shorter)) / of_nat (length longer)"
      using False
      by (simp add: levenshteinSimilarity_def longer_def [symmetric] shorter_def [symmetric] Let_def)
    then show ?thesis using pos a by (simp add: divide_le_eq_1)
  qed
qed

subsection \<open>Every score lies between 0 and 1\<close>

lemma dateScoreOf_bounds: "0 \<le> dateScoreOf d1 d2 \<and> dateScoreOf d1 d2 \<le> 1"
  by (cases d1; cases d2) (auto simp: dateScoreOf_def Let_def field_simps)

lemma tokenOverlapScore_bounds:
  "0 \<le> tokenOverlapScore t1 t2 \<and> tokenOverlapScore t1 t2 \<le> 1"
proof -
  have fin: "finite (tokenize t1)" "finite (tokenize t2)"
    by (simp_all add: tokenize_def)
  have "card {t \<in> tokenize t1. t \<in> tokenize t2} \<le> card (tokenize t1 \<union> tokenize t2)"
    using fin by (intro card_mono) auto
  then have "(of_nat (card {t \<in> tokenize t1. t \<in> tokenize t2}) :: rat)
               \<le> of_nat (card (tokenize t1 \<union> tokenize t2))"
    by simp
  then show ?thesis
    by (auto simp: tokenOverlapScore_def Let_def divide_le_eq_1)
qed

lemma getOr0_nonneg: "nonnegMap m \<Longrightarrow> 0 \<le> getOr0 m k"
  by (auto simp: nonnegMap_def getOr0_def list_all_iff split: option.splits dest!: map_of_SomeD)

lemma update_nonneg: "nonnegMap m \<Longrightarrow> 0 \<le> v \<Longrightarrow> nonnegMap (AList.update k v m)"
  by (induction m) (auto simp: nonnegMap_def)

lemma scanSynonyms_nonneg: "nonnegMap found \<Longrightarrow> nonnegMap (scanSynonyms n g syns found)"
  by (induction syns)
     (auto simp: Let_def intro!: update_nonneg getOr0_nonneg simp: le_max_iff_disj)

lemma extractLoop_nonneg: "nonnegMap found \<Longrightarrow> nonnegMap (extractLoop n gs found)"
  by (induction gs arbitrary: found) (simp_all add: scanSynonyms_nonneg)

lemma extractKeywords_nonneg: "nonnegMap (extractKeywords t gs)"
proof -
  have "nonnegMap []" by (simp add: nonnegMap_def)
  then show ?thesis unfolding extractKeywords_def by (rule extractLoop_nonneg)
qed

lemma keywordOverlapScore_bounds:
  "0 \<le> keywordOverlapScore t1 t2 gs \<and> keywordOverlapScore t1 t2 gs \<le> 1"
proof -
  define k1 where "k1 = extractKeywords t1 gs"
  define k2 where "k2 = extractKeywords t2 gs"
  define keys where "keys = uniq (map fst k1 @ map fst k2)"
  define I where "I = (\<Sum>k\<leftarrow>keys. if getOr0 k1 k > 0 \<and> getOr0 k2 k > 0
                          then min (getOr0 k1 k) (getOr0 k2 k) else 0)"
  define U where "U = (\<Sum>k\<leftarrow>keys. max (getOr0 k1 k) (getOr0 k2 k))"
  have n1: "\<And>k. 0 \<le> getOr0 k1 k" and n2: "\<And>k. 0 \<le> getOr0 k2 k"
    by (simp_all add: k1_def k2_def getOr0_nonneg extractKeywords_nonneg)
  have I0: "0 \<le> I"
    unfolding I_def using n1 n2 by (intro sum_list_nonneg) auto
  have IU: "I \<le> U"
    unfolding I_def U_def using n1 n2
    by (intro sum_list_mono) (auto simp: le_max_iff_disj min_le_iff_disj)
  have loop: "overlapLoop k1 k2 keys (0, 0) = (I, U)"
    by (simp add: overlapLoop_sums I_def U_def)
  have "keywordOverlapScore t1 t2 gs =
          (if k1 = [] \<and> k2 = [] then 0 else if U > 0 then I / U else 0)"
    by (simp add: keywordOverlapScore_def k1_def [symmetric] k2_def [symmetric]
          keys_def [symmetric] loop Let_def)
  then show ?thesis using I0 IU by (auto simp: divide_le_eq_1)
qed

lemma calculateMatchScore_overall_bounds:
  "0 \<le> overall (calculateMatchScore a b) \<and> overall (calculateMatchScore a b) \<le> 1"
proof (cases "trim (toLowerCase (PolyQuestion.title a)) = trim (toLowerCase (KalshiQuestion.title b))")
  case True
  then show ?thesis by (simp add: calculateMatchScore_def calculateMatchScoreWith_def)
next
  case False
  define k where "k = keywordOverlapScore (PolyQuestion.title a) (KalshiQuestion.title b)
             (POLITICAL_KEYWORDS @ CRYPTO_KEYWORDS)"
  define t where "t = tokenOverlapScore (PolyQuestion.title a) (KalshiQuestion.title b)"
  define f where "f = levenshteinSimilarity (trim (toLowerCase (PolyQuestion.title a)))
             (trim (toLowerCase (KalshiQuestion.title b)))"
  define d where "d = dateScoreOf (endDate a) (expirationTime b)"
  have o: "overall (calculateMatchScore a b)
             = 4 / 10 * k + 3 / 10 * t + 15 / 100 * f + 1 / 10 * d + 5 / 100 * (1 / 2)"
    using False
    by (simp add: calculateMatchScore_def calculateMatchScoreWith_def Let_def k_def t_def f_def d_def split: prod.splits)
  have "0 \<le> k \<and> k \<le> 1" "0 \<le> t \<and> t \<le> 1" "0 \<le> f \<and> f \<le> 1" "0 \<le> d \<and> d \<le> 1"
    by (simp_all only: k_def t_def f_def d_def keywordOverlapScore_bounds
          tokenOverlapScore_bounds levenshteinSimilarity_bounds dateScoreOf_bounds)
  then show ?thesis unfolding o by simp
qed

subsection \<open>Created mappings\<close>

lemma default_pairs:
  "pairsEachOnce [\<lparr>polymarketOutcome = ''Yes'', kalshiSide = ''yes''\<rparr>,
                  \<lparr>polymarketOutcome = ''No'', kalshiSide = ''no''\<rparr>] outs kalshiSides
     = (mset outs = mset [''Yes'', ''No''])"
  by (auto simp: pairsEachOnce_def kalshiSides_def add.commute)

text \<open>
  Claim C9, as the code has it. A mapping created by \<open>findKalshiEquivalent\<close> (when there is
  no active cached mapping) or by \<open>addManualMapping\<close> carries the fixed outcome mapping
  Yes to yes, No to no, and a confidence between 0 and 1 (1 for a manual mapping). That
  outcome mapping pairs every outcome of both questions exactly once precisely when the
  outcomes of the Polymarket question are Yes and No; the matcher does not compare it with
  the question's outcomes.
\<close>

theorem created_mapping_defaults:
  "((\<forall>c. map_of (cachedMappings st) (conditionId p) = Some c \<longrightarrow> \<not> isActive c)
      \<and> fst (findKalshiEquivalent cfg env st p ks) = Some m \<longrightarrow>
        outcomeMapping m = [\<lparr>polymarketOutcome = ''Yes'', kalshiSide = ''yes''\<rparr>,
                            \<lparr>polymarketOutcome = ''No'', kalshiSide = ''no''\<rparr>]
      \<and> 0 \<le> matchConfidence m \<and> matchConfidence m \<le> 1
      \<and> pairsEachOnce (outcomeMapping m) (outcomes p) kalshiSides
          = (mset (outcomes p) = mset [''Yes'', ''No'']))
   \<and> outcomeMapping (fst (addManualMapping env st pid tk d))
       = [\<lparr>polymarketOutcome = ''Yes'', kalshiSide = ''yes''\<rparr>,
          \<lparr>polymarketOutcome = ''No'', kalshiSide = ''no''\<rparr>]
   \<and> matchConfidence (fst (addManualMapping env st pid tk d)) = 1
   \<and> pairsEachOnce (outcomeMapping (fst (addManualMapping env st pid tk d)))
        [''Yes'', ''No''] kalshiSides"
proof (intro conjI impI)
  assume h: "(\<forall>c. map_of (cachedMappings st) (conditionId p) = Some c \<longrightarrow> \<not> isActive c)
      \<and> fst (findKalshiEquivalent cfg env st p ks) = Some m"
  then have miss: "\<forall>c. map_of (cachedMappings st) (conditionId p) = Some c \<longrightarrow> \<not> isActive c"
    and res: "fst (findKalshiEquivalent cfg env st p ks) = Some m"
    by blast+
  from res obtain k s where ks: "equivLoopWith calculateMatchScore cfg p ks None = Some (k, s)"
    by (cases "equivLoopWith calculateMatchScore cfg p ks None")
       (auto simp: findKalshiEquivalent_miss [OF miss])
  from equivLoopWith_start [OF ks] have s: "s = calculateMatchScore p k"
    unfolding calculateMatchScore_question by blast
  from res ks s have m: "outcomeMapping m = [\<lparr>polymarketOutcome = ''Yes'', kalshiSide = ''yes''\<rparr>,
                            \<lparr>polymarketOutcome = ''No'', kalshiSide = ''no''\<rparr>]"
      "matchConfidence m = overall (calculateMatchScore p k)"
    by (auto simp: findKalshiEquivalent_miss [OF miss] Let_def createMapping_def)
  show "outcomeMapping m = [\<lparr>polymarketOutcome = ''Yes'', kalshiSide = ''yes''\<rparr>,
                            \<lparr>polymarketOutcome = ''No'', kalshiSide = ''no''\<rparr>]"
    by (rule m(1))
  show "0 \<le> matchConfidence m" "matchConfidence m \<le> 1"
    using calculateMatchScore_overall_bounds [of p k] by (simp_all add: m(2))
  show "pairsEachOnce (outcomeMapping m) (outcomes p) kalshiSides
          = (mset (outcomes p) = mset [''Yes'', ''No''])"
    unfolding m(1) by (rule default_pairs)
next
  show "outcomeMapping (fst (addManualMapping env st pid tk d))
       = [\<lparr>polymarketOutcome = ''Yes'', kalshiSide = ''yes''\<rparr>,
          \<lparr>polymarketOutcome = ''No'', kalshiSide = ''no''\<rparr>]"
    by (simp add: addManualMapping_def Let_def)
  then show "pairsEachOnce (outcomeMapping (fst (addManualMapping env st pid tk d)))
        [''Yes'', ''No''] kalshiSides"
    by (simp add: default_pairs)
  show "matchConfidence (fst (addManualMapping env st pid tk d)) = 1"
    by (simp add: addManualMapping_def Let_def)
qed

lemma equivLoop_exact:
  "equivLoopWith calculateMatchScore defaultConfig tiePoly [exactKalshi] None
     = Some (exactKalshi, calculateMatchScore tiePoly exactKalshi)"
  by (simp add: calculateMatchScore_question score_exactKalshi defaultConfig_def
        double_0_60_def)

theorem created_mapping_defaults_witness:
  "map_of (cachedMappings emptyMatcher) (conditionId tiePoly) = None
   \<and> map_option outcomeMapping
        (fst (findKalshiEquivalent defaultConfig env0 emptyMatcher tiePoly [exactKalshi]))
       = Some [\<lparr>polymarketOutcome = ''Yes'', kalshiSide = ''yes''\<rparr>,
               \<lparr>polymarketOutcome = ''No'', kalshiSide = ''no''\<rparr>]
   \<and> map_option (\<lambda>m. 0 \<le> matchConfidence m \<and> matchConfidence m \<le> 1
                       \<and> pairsEachOnce (outcomeMapping m) (outcomes tiePoly) kalshiSides)
        (fst (findKalshiEquivalent defaultConfig env0 emptyMatcher tiePoly [exactKalshi]))
       = Some True"
proof -
  have none: "map_of (cachedMappings emptyMatcher) (conditionId tiePoly) = None"
    by (simp add: emptyMatcher_def)
  then have miss: "\<forall>c. map_of (cachedMappings emptyMatcher) (conditionId tiePoly) = Some c
                     \<longrightarrow> \<not> isActive c"
    by simp
  obtain m where m: "fst (findKalshiEquivalent defaultConfig env0 emptyMatcher tiePoly [exactKalshi])
                       = Some m"
    by (simp add: findKalshiEquivalent_miss [OF miss] equivLoop_exact Let_def
          del: equivLoopWith.simps)
  have outs: "mset (outcomes tiePoly) = mset [''Yes'', ''No'']"
    by (simp add: tiePoly_def)
  from created_mapping_defaults [of emptyMatcher tiePoly defaultConfig env0 "[exactKalshi]" m]
    miss m outs
  have "outcomeMapping m = [\<lparr>polymarketOutcome = ''Yes'', kalshiSide = ''yes''\<rparr>,
                            \<lparr>polymarketOutcome = ''No'', kalshiSide = ''no''\<rparr>]
      \<and> 0 \<le> matchConfidence m \<and> matchConfidence m \<le> 1
      \<and> pairsEachOnce (outcomeMapping m) (outcomes tiePoly) kalshiSides"
    by blast
  with none m show ?thesis by auto
qed

lemma equivLoop_upDown:
  "equivLoopWith calculateMatchScore defaultConfig upDownPoly [upDownKalshi] None
     = Some (upDownKalshi, calculateMatchScore upDownPoly upDownKalshi)"
proof -
  have "trim (toLowerCase (PolyQuestion.title upDownPoly))
          = trim (toLowerCase (KalshiQuestion.title upDownKalshi))"
    by code_simp
  then have "overall (calculateMatchScore upDownPoly upDownKalshi) = 1"
    by (simp add: calculateMatchScore_def calculateMatchScoreWith_def)
  then show ?thesis
    by (simp add: calculateMatchScore_question defaultConfig_def double_0_60_def)
qed

text \<open>
  The claim as stated fails. For a question with the outcomes Up and Down the created
  mapping still pairs Yes and No, and it is returned and saved. And a mapping that was
  saved and is loaded again from the table has an empty outcome mapping; the matcher
  returns it from its cache and allows trading on it.
\<close>

theorem outcome_pairing_counterexample:
  "map_option (\<lambda>m. pairsEachOnce (outcomeMapping m) (outcomes upDownPoly) kalshiSides)
     (fst (findKalshiEquivalent defaultConfig env0 emptyMatcher upDownPoly [upDownKalshi]))
     = Some False
   \<and> map_option (\<lambda>m. (outcomeMapping m, canTradeOnMapping defaultConfig m,
                       pairsEachOnce (outcomeMapping m) (outcomes tiePoly) kalshiSides))
       (fst (findKalshiEquivalent defaultConfig env0
          (loadMappings env0 (restarted
             (snd (findKalshiEquivalent defaultConfig env0 emptyMatcher tiePoly [exactKalshi]))))
          tiePoly []))
     = Some ([], True, False)"
proof -
  have ne: "\<not> pairsEachOnce [\<lparr>polymarketOutcome = ''Yes'', kalshiSide = ''yes''\<rparr>,
                             \<lparr>polymarketOutcome = ''No'', kalshiSide = ''no''\<rparr>]
                 (outcomes upDownPoly) kalshiSides"
    by code_simp
  have a: "map_option (\<lambda>m. pairsEachOnce (outcomeMapping m) (outcomes upDownPoly) kalshiSides)
     (fst (findKalshiEquivalent defaultConfig env0 emptyMatcher upDownPoly [upDownKalshi]))
     = Some False"
    using ne
    by (simp add: findKalshiEquivalent_def findKalshiEquivalentWith_def emptyMatcher_def
          equivLoop_upDown Let_def createMapping_def del: equivLoopWith.simps)
  have st: "event_mappings
              (snd (findKalshiEquivalent defaultConfig env0 emptyMatcher tiePoly [exactKalshi]))
            = [((''0x789'', ''TAX-SAME''),
                \<lparr>row_id = ''id-7'', polymarket_condition_id = ''0x789'',
                 kalshi_ticker = ''TAX-SAME'', description = ''2024 tax cut'',
                 match_confidence = 1, match_method = Exact,
                 resolution_date = Date 1735603200000, is_active = True\<rparr>)]"
    by (simp add: findKalshiEquivalent_def findKalshiEquivalentWith_def emptyMatcher_def
          equivLoop_exact Let_def createMapping_def saveMapping_def env0_def score_exactKalshi
          del: equivLoopWith.simps)
       (simp add: tiePoly_def exactKalshi_def)
  have up: "dbUp env0" by (simp add: env0_def)
  have ld: "cachedMappings (loadMappings env0 (restarted
             (snd (findKalshiEquivalent defaultConfig env0 emptyMatcher tiePoly [exactKalshi]))))
           = [(''0x789'',
               \<lparr>mappingId = ''id-7'', polymarketConditionId = ''0x789'',
                kalshiTicker = ''TAX-SAME'', eventDescription = ''2024 tax cut'',
                matchConfidence = 1, resolutionDate = Date 1735603200000,
                matchMethod = Exact, outcomeMapping = [], isActive = True,
                createdAt = InvalidDate, updatedAt = InvalidDate,
                scoreBreakdown = None, needsReview = None\<rparr>)]"
    using up by (simp add: restarted_def st loadMappings_def loadRow_def Let_def)
  have np: "\<not> pairsEachOnce [] (outcomes tiePoly) kalshiSides"
    by code_simp
  have b: "map_option (\<lambda>m. (outcomeMapping m, canTradeOnMapping defaultConfig m,
                       pairsEachOnce (outcomeMapping m) (outcomes tiePoly) kalshiSides))
       (fst (findKalshiEquivalent defaultConfig env0
          (loadMappings env0 (restarted
             (snd (findKalshiEquivalent defaultConfig env0 emptyMatcher tiePoly [exactKalshi]))))
          tiePoly []))
     = Some ([], True, False)"
    unfolding findKalshiEquivalent_def [of defaultConfig env0 "loadMappings env0 _"]
      findKalshiEquivalentWith_def ld
    using np
    by (simp add: Let_def canTradeOnMapping_def defaultConfig_def tiePoly_def)
  from a b show ?thesis by blast
qed

end
